theory Spec2Isabelle
  imports Main "HOL-Library.AList"
begin

section \<open>Python values used by the compiler\<close>

text \<open>
  The compiler of \<^verbatim>\<open>tealish/__init__.py\<close> is embedded function by function.
  Python dictionaries are association lists: \<open>AList.update\<close> replaces the value of
  an existing key in place and appends a new key at the end, as \<^verbatim>\<open>d[k] = v\<close> does on
  an insertion-ordered \<^verbatim>\<open>dict\<close>; \<open>map_of\<close> is the lookup.
\<close>

type_synonym ('k, 'v) dict = "('k \<times> 'v) list"

text \<open>\<^verbatim>\<open>d1.update(d2)\<close>: every item of \<open>d2\<close>, in its order, is assigned into \<open>d1\<close>.\<close>

definition dict_update :: "('k, 'v) dict \<Rightarrow> ('k, 'v) dict \<Rightarrow> ('k, 'v) dict" where
  "dict_update d1 d2 = fold (\<lambda>(k, v) d. AList.update k v d) d2 d1"

section \<open>The compiler object\<close>

text \<open>
  \<^verbatim>\<open>class TealishCompiler\<close>: the fields set by \<^verbatim>\<open>__init__\<close>. The list \<^verbatim>\<open>nodes\<close> holds
  the one tree that \<^verbatim>\<open>parse\<close> builds; it is passed explicitly between the passes.
\<close>

record TealishCompiler =
  source_lines :: "string list"
  output_lines :: "string list"
  source_map :: "(nat, nat) dict"
  current_output_line :: nat
  level :: int
  line_no :: nat
  conditional_count :: nat
  error_messages :: "(nat, string) dict"
  max_slot :: nat

definition TealishCompiler_init :: "string list \<Rightarrow> TealishCompiler" where
  "TealishCompiler_init src =
     \<lparr> source_lines = src, output_lines = [], source_map = [], current_output_line = 1,
       level = 0, line_no = 0, conditional_count = 0, error_messages = [],
       max_slot = 0 \<rparr>"

text \<open>\<^verbatim>\<open>"  " * self.level\<close>: a negative count gives the empty string.\<close>

definition prefix_of :: "int \<Rightarrow> string" where
  "prefix_of lvl = concat (replicate (nat lvl) ''  '')"

text \<open>
  \<^verbatim>\<open>TealishCompiler.write(lines, line_no)\<close>. The loop body appends one output line,
  records the source line under the emission counter and advances the counter.
  A caller that passes a single \<^verbatim>\<open>str\<close> is modelled by the one-element list, which is
  what the \<^verbatim>\<open>type(lines) == str\<close> test turns it into.
\<close>

definition write_line ::
  "nat \<Rightarrow> string \<Rightarrow> 'a TealishCompiler_scheme \<Rightarrow> 'a TealishCompiler_scheme" where
  "write_line ln s c =
     c\<lparr> output_lines := output_lines c @ [prefix_of (level c) @ s],
        source_map := AList.update (current_output_line c) ln (source_map c),
        current_output_line := current_output_line c + 1 \<rparr>"

definition TealishCompiler_write ::
  "string list \<Rightarrow> nat \<Rightarrow> 'a TealishCompiler_scheme \<Rightarrow> 'a TealishCompiler_scheme" where
  "TealishCompiler_write lines ln c = fold (write_line ln) lines c"

text \<open>
  The source-map invariant: the recorded keys are the numbers of the emitted lines, and
  the emission counter is one past the last of them.
\<close>

definition source_map_inv :: "'a TealishCompiler_scheme \<Rightarrow> bool" where
  "source_map_inv c \<longleftrightarrow>
     fst ` set (source_map c) = {1 .. length (output_lines c)} \<and>
     current_output_line c = length (output_lines c) + 1"

section \<open>Strings and exceptions\<close>

text \<open>\<^verbatim>\<open>str(n)\<close> for a non-negative integer: its decimal digits.\<close>

definition digit_char :: "nat \<Rightarrow> char" where
  "digit_char d = ''0123456789'' ! d"

fun str_nat :: "nat \<Rightarrow> string" where
  "str_nat n = (if n < 10 then [digit_char n] else str_nat (n div 10) @ [digit_char (n mod 10)])"

declare str_nat.simps [simp del]

text \<open>
  The exceptions the compiler raises, each with the text \<^verbatim>\<open>str(e)\<close> gives.
  \<open>ParseError\<close> and \<open>CompileError\<close> are the two classes of the module; the others are
  Python's own (\<^verbatim>\<open>raise Exception(...)\<close>, a failed \<^verbatim>\<open>assert\<close>, an attribute read on
  \<^verbatim>\<open>None\<close>, an index out of range, a missing key, \<^verbatim>\<open>None\<close> where a string is needed).
  The text of a \<^verbatim>\<open>KeyError\<close> is the key between single quotes.
\<close>

datatype exn =
    ParseError string
  | CompileError string
  | Exception string
  | AssertionError string
  | AttributeError string
  | IndexError string
  | KeyError string
  | TypeError string

fun str_exn :: "exn \<Rightarrow> string" where
  "str_exn (ParseError s) = s"
| "str_exn (CompileError s) = s"
| "str_exn (Exception s) = s"
| "str_exn (AssertionError s) = s"
| "str_exn (AttributeError s) = s"
| "str_exn (IndexError s) = s"
| "str_exn (KeyError s) = [CHR 0x27] @ s @ [CHR 0x27]"
| "str_exn (TypeError s) = s"

text \<open>Sequencing of a step that may raise: the first exception ends the run.\<close>

definition bind :: "exn + 'a \<Rightarrow> ('a \<Rightarrow> exn + 'b) \<Rightarrow> exn + 'b" where
  "bind m f = (case m of Inl e \<Rightarrow> Inl e | Inr x \<Rightarrow> f x)"

lemma bind_Inl [simp]: "bind (Inl e) f = Inl e"
  by (simp add: bind_def)

lemma bind_Inr [simp]: "bind (Inr x) f = f x"
  by (simp add: bind_def)

lemma bind_cong [fundef_cong]:
  "m = m' \<Longrightarrow> (\<And>x. m' = Inr x \<Longrightarrow> f x = f' x) \<Longrightarrow> bind m f = bind m' f'"
  by (cases m') (simp_all add: bind_def)


section \<open>Scopes\<close>

text \<open>\<^verbatim>\<open>class StackType(str, Enum)\<close>.\<close>

datatype StackType = T_int | T_bytes | T_any | T_none

text \<open>
  Modelled from the spec: the value of a literal (\<^verbatim>\<open>Literal.value\<close> of the expression
  module, which is not among the sources): an integer or a byte string.
\<close>

datatype literal_value = IntValue int | BytesValue string

text \<open>
  \<^verbatim>\<open>class Scope\<close>. Scope objects are shared and mutated through references, so they
  live in a store, a list indexed by the scope's identity; \<open>parent\<close> is such an index.
  A scope is allocated after its parent, so a parent's index is smaller than its
  child's. The tables \<open>blocks\<close> and \<open>functions\<close> hold references to \<^verbatim>\<open>Block\<close> and
  \<^verbatim>\<open>Func\<close> nodes, of which the compiler reads the attribute \<^verbatim>\<open>label\<close> only (fixed when
  the node is constructed): the tables hold that label.
\<close>

record Scope =
  parent :: "nat option"
  slots :: "(string, nat \<times> StackType) dict"
  slot_range :: "nat \<times> nat"
  scope_consts :: "(string, StackType \<times> literal_value) dict"
  blocks :: "(string, string) dict"
  scope_functions :: "(string, string) dict"
  name :: string

text \<open>
  \<^verbatim>\<open>Scope.__init__(name, parent, slot_range)\<close>; the second argument is the parent's
  index together with the parent itself.
\<close>

definition Scope_init :: "string \<Rightarrow> (nat \<times> Scope) option \<Rightarrow> (nat \<times> nat) option \<Rightarrow> Scope" where
  "Scope_init nm par rng =
     \<lparr> parent = map_option fst par,
       slots = [],
       slot_range = (case rng of Some r \<Rightarrow> r | None \<Rightarrow> (0, 200)),
       scope_consts = [], blocks = [], scope_functions = [],
       name = (case par of
                 Some (_, p) \<Rightarrow> if name p \<noteq> [] then name p @ ''__'' @ nm else nm
               | None \<Rightarrow> nm) \<rparr>"

text \<open>The state of a compilation: the compiler object and the store of scopes.\<close>

record state = TealishCompiler +
  scopes :: "Scope list"

text \<open>
  \<^verbatim>\<open>Node.get_scopes\<close>: the current scope and its ancestors, innermost first. The walk
  follows parent indices; they decrease, as allocation order makes them.
\<close>

function get_scopes :: "Scope list \<Rightarrow> nat \<Rightarrow> nat list" where
  "get_scopes S i =
     i # (case parent (S ! i) of
            None \<Rightarrow> []
          | Some p \<Rightarrow> if p < i then get_scopes S p else [])"
  by pat_completeness auto
termination
  by (relation "measure snd") auto

declare get_scopes.simps [simp del]

text \<open>
  \<^verbatim>\<open>Node.get_slots\<close>, \<^verbatim>\<open>Node.get_blocks\<close> and the four tables of \<^verbatim>\<open>Node.get_scope\<close>:
  an empty dictionary updated with the table of every scope of the chain, innermost
  first, so an outer scope's entry replaces an inner one of the same name.
\<close>

definition merged :: "(Scope \<Rightarrow> ('k, 'v) dict) \<Rightarrow> Scope list \<Rightarrow> nat \<Rightarrow> ('k, 'v) dict" where
  "merged tbl S i = fold (\<lambda>j d. dict_update d (tbl (S ! j))) (get_scopes S i) []"

definition get_slots :: "Scope list \<Rightarrow> nat \<Rightarrow> (string, nat \<times> StackType) dict" where
  "get_slots S i = merged slots S i"

definition get_blocks :: "Scope list \<Rightarrow> nat \<Rightarrow> (string, string) dict" where
  "get_blocks S i = merged blocks S i"

text \<open>\<^verbatim>\<open>Node.get_block\<close>: \<^verbatim>\<open>dict.get\<close>, so \<open>None\<close> for an unknown name.\<close>

definition get_block :: "Scope list \<Rightarrow> nat \<Rightarrow> string \<Rightarrow> string option" where
  "get_block S i nm = map_of (get_blocks S i) nm"

text \<open>\<^verbatim>\<open>Node.get_var\<close>: \<^verbatim>\<open>(None, None)\<close> for an unknown name is \<open>None\<close> here.\<close>

definition get_var :: "Scope list \<Rightarrow> nat \<Rightarrow> string \<Rightarrow> (nat \<times> StackType) option" where
  "get_var S i nm = map_of (get_slots S i) nm"

text \<open>\<^verbatim>\<open>Node.get_const\<close>: a subscript, so \<^verbatim>\<open>KeyError\<close> for an unknown name.\<close>

definition get_const :: "Scope list \<Rightarrow> nat \<Rightarrow> string \<Rightarrow> exn + (StackType \<times> literal_value)" where
  "get_const S i nm =
     (case map_of (merged scope_consts S i) nm of
        None \<Rightarrow> Inl (KeyError nm)
      | Some v \<Rightarrow> Inr v)"

text \<open>The dictionary \<^verbatim>\<open>Node.get_scope\<close> passes to the expression module.\<close>

record scope_view =
  sv_slots :: "(string, nat \<times> StackType) dict"
  sv_consts :: "(string, StackType \<times> literal_value) dict"
  sv_blocks :: "(string, string) dict"
  sv_functions :: "(string, string) dict"

definition get_scope :: "Scope list \<Rightarrow> nat \<Rightarrow> scope_view" where
  "get_scope S i =
     \<lparr> sv_slots = merged slots S i, sv_consts = merged scope_consts S i,
       sv_blocks = merged blocks S i, sv_functions = merged scope_functions S i \<rparr>"

subsection \<open>Slot allocation\<close>

text \<open>
  \<^verbatim>\<open>Node.find_slot\<close>. The first loop marks the slot of every visible variable in a list
  of 255 flags (\<^verbatim>\<open>IndexError\<close> beyond it); the second returns the first unmarked index
  that lies in the range of the current scope.
\<close>

fun mark_used :: "(string, nat \<times> StackType) dict \<Rightarrow> bool list \<Rightarrow> exn + bool list" where
  "mark_used [] used = Inr used"
| "mark_used ((k, (slot, t)) # rest) used =
     (if slot < length used then mark_used rest (used[slot := True])
      else Inl (IndexError ''list assignment index out of range''))"

fun first_free :: "bool list \<Rightarrow> nat \<Rightarrow> nat \<Rightarrow> nat \<Rightarrow> nat option" where
  "first_free [] lo hi i = None"
| "first_free (u # used) lo hi i =
     (if \<not> u \<and> lo \<le> i \<and> i \<le> hi then Some i else first_free used lo hi (i + 1))"

definition find_slot :: "Scope list \<Rightarrow> nat \<Rightarrow> exn + nat" where
  "find_slot S i =
     (let (lo, hi) = slot_range (S ! i) in
      bind (mark_used (get_slots S i) (replicate 255 False)) (\<lambda>used.
        case first_free used lo hi 0 of
          Some k \<Rightarrow> Inr k
        | None \<Rightarrow> Inl (Exception ''No available slots!'')))"

text \<open>\<^verbatim>\<open>"func__" in scope.name\<close>: a substring test.\<close>

fun contains :: "string \<Rightarrow> string \<Rightarrow> bool" where
  "contains sub [] = (sub = [])"
| "contains sub (c # cs) = (take (length sub) (c # cs) = sub \<or> contains sub cs)"

text \<open>\<^verbatim>\<open>Node.declare_var(name, type)\<close> on a node whose current scope is \<open>i\<close>.\<close>

definition declare_var :: "nat \<Rightarrow> string \<Rightarrow> StackType \<Rightarrow> state \<Rightarrow> exn + (nat \<times> state)" where
  \<open>declare_var i nm t st =
     (case get_var (scopes st) i nm of
        Some _ \<Rightarrow> Inl (Exception (''Redefinition of variable "'' @ nm @ ''"''))
      | None \<Rightarrow>
          bind (if contains ''func__'' (name (scopes st ! i))
                then Inr (max_slot st + 1)
                else find_slot (scopes st) i) (\<lambda>slot.
            Inr (slot,
                 st\<lparr> max_slot := max (max_slot st) slot,
                     scopes := (scopes st)[i := (scopes st ! i)
                        \<lparr> slots := AList.update nm (slot, t) (slots (scopes st ! i)) \<rparr>] \<rparr>)))\<close>

text \<open>\<^verbatim>\<open>Node.del_var(name)\<close>.\<close>

definition del_var :: "nat \<Rightarrow> string \<Rightarrow> state \<Rightarrow> state" where
  "del_var i nm st =
     st\<lparr> scopes := (scopes st)[i := (scopes st ! i)
            \<lparr> slots := AList.delete nm (slots (scopes st ! i)) \<rparr>] \<rparr>"

section \<open>Expressions and syntax nodes\<close>

text \<open>
  Modelled from the spec: the expression module (\<^verbatim>\<open>tealish/expressions.py\<close>) is not among
  the sources. The statements use an expression object through two calls:
  \<^verbatim>\<open>process(scope)\<close>, which resolves the names of the expression against the dictionary
  of \<^verbatim>\<open>get_scope\<close>, sets its \<^verbatim>\<open>type\<close> or raises, and \<^verbatim>\<open>teal()\<close>, which returns the
  lines of postfix assembly. An expression is that behaviour: a function from the
  scope to the exception raised, or to the type and the assembly lines.
\<close>

datatype expr_type = Single StackType | Multi "StackType list"

datatype expression =
  Expression (process: "scope_view \<Rightarrow> exn + (expr_type \<times> string list)")

text \<open>
  The attributes every node has: the text of its source line, the number of that line
  and the index of its current scope.
\<close>

datatype meta = Meta (node_line: string) (node_line_no: nat) (node_scope: nat)

datatype SwitchOption = SwitchOption meta expression string

datatype SwitchElse = SwitchElse meta string

datatype InnerTxnFieldSetter =
  InnerTxnFieldSetter meta (field_name: string) (index: "string option")
    (field_expression: expression)

text \<open>
  The node classes, each with the attributes its constructor sets. Labels are fixed
  at construction: \<open>Block\<close> and \<open>Func\<close> carry \<^verbatim>\<open>label\<close>, the conditional and loop
  nodes their start and end labels, \<open>Elif\<close> and \<open>Else\<close> the \<^verbatim>\<open>label\<close> their parent gave
  them, \<open>Break\<close> the end label of its \<^verbatim>\<open>parent_loop\<close>.
\<close>

datatype Node =
    Program meta "Node list"
  | TealVersion meta string
  | Comment meta string
  | Blank meta
  | Const meta StackType string literal_value
  | Jump meta string
  | Exit meta expression
  | FunctionCall meta expression
  | Assert meta expression "string option"
  | BytesDeclaration meta string "expression option"
  | IntDeclaration meta string "expression option"
  | Assignment meta string expression
  | Block meta string string "Node list"
  | Switch meta expression "SwitchOption list" "SwitchElse option"
  | TealLine meta
  | Teal meta "Node list"
  | InnerTxn meta "InnerTxnFieldSetter list"
  | InnerGroup meta "Node list"
  | IfStatement meta "string option" expression string IfThen "Elif list" "Else option"
  | Break meta string
  | WhileStatement meta "string option" expression string string "Node list"
  | ForStatement meta string expression expression string string "Node list"
  | Func meta string "(string \<times> StackType) list" string "Node list"
  | Return meta string
and IfThen = IfThen meta "Node list"
and Elif = Elif meta "string option" expression (elif_label: string) "Node list"
and Else = Else meta (else_label: string) "Node list"

text \<open>\<^verbatim>\<open>Node.write\<close>, for a list of lines and for one line.\<close>

definition Node_write :: "string list \<Rightarrow> meta \<Rightarrow> state \<Rightarrow> state" where
  "Node_write lines m st = TealishCompiler_write lines (node_line_no m) st"

definition wr :: "string \<Rightarrow> meta \<Rightarrow> state \<Rightarrow> state" where
  "wr s m st = Node_write [s] m st"

text \<open>\<^verbatim>\<open>expression.process(self.get_scope())\<close> on a node.\<close>

definition process_in :: "expression \<Rightarrow> meta \<Rightarrow> state \<Rightarrow> exn + (expr_type \<times> string list)" where
  "process_in e m st = process e (get_scope (scopes st) (node_scope m))"

text \<open>
  The handler of \<^verbatim>\<open>Node.visit\<close>: an exception of \<^verbatim>\<open>process\<close> becomes a
  \<^verbatim>\<open>CompileError\<close> with the line number appended.
\<close>

definition wrap :: "meta \<Rightarrow> exn + 'a \<Rightarrow> exn + 'a" where
  "wrap m r =
     (case r of
        Inl e \<Rightarrow> Inl (CompileError (str_exn e @ '' at line '' @ str_nat (node_line_no m)))
      | Inr x \<Rightarrow> Inr x)"

definition inc_level :: "state \<Rightarrow> state" where
  "inc_level st = st\<lparr> level := level st + 1 \<rparr>"

definition dec_level :: "state \<Rightarrow> state" where
  "dec_level st = st\<lparr> level := level st - 1 \<rparr>"

subsection \<open>Python string operations\<close>

text \<open>
  A character is a code point below 256. \<open>is_space\<close> is \<^verbatim>\<open>str.isspace\<close> on these, the
  characters that \<^verbatim>\<open>str.strip()\<close> removes.
\<close>

definition is_space :: "char \<Rightarrow> bool" where
  "is_space c \<longleftrightarrow> c \<in> set [CHR 0x20, CHR 0x09, CHR 0x0A, CHR 0x0B, CHR 0x0C, CHR 0x0D,
                       CHR 0x1C, CHR 0x1D, CHR 0x1E, CHR 0x1F, CHR 0x85, CHR 0xA0]"

definition strip :: "string \<Rightarrow> string" where
  "strip s = rev (dropWhile is_space (rev (dropWhile is_space s)))"

definition startswith :: "string \<Rightarrow> string \<Rightarrow> bool" where
  "startswith s p \<longleftrightarrow> take (length p) s = p"

definition endswith :: "string \<Rightarrow> string \<Rightarrow> bool" where
  "endswith s p \<longleftrightarrow> length p \<le> length s \<and> drop (length s - length p) s = p"

text \<open>\<^verbatim>\<open>s.split(c)\<close> for a one-character separator.\<close>

fun split_on :: "char \<Rightarrow> string \<Rightarrow> string list" where
  "split_on c [] = [[]]"
| "split_on c (x # xs) =
     (if x = c then [] # split_on c xs
      else (case split_on c xs of
              [] \<Rightarrow> [[x]]
            | w # ws \<Rightarrow> (x # w) # ws))"

text \<open>\<^verbatim>\<open>int(s)\<close> for a string of decimal digits.\<close>

definition digit_val :: "char \<Rightarrow> nat" where
  "digit_val c = of_char c - 48"

definition py_int :: "string \<Rightarrow> nat" where
  "py_int s = foldl (\<lambda>acc c. 10 * acc + digit_val c) 0 s"

text \<open>The text a type takes in a message.\<close>

fun str_StackType :: "StackType \<Rightarrow> string" where
  "str_StackType T_int = ''int''"
| "str_StackType T_bytes = ''bytes''"
| "str_StackType T_any = ''any''"
| "str_StackType T_none = ''none''"

fun str_expr_type :: "expr_type \<Rightarrow> string" where
  "str_expr_type (Single t) = str_StackType t"
| "str_expr_type (Multi ts) = ''['' @ concat (map (\<lambda>t. str_StackType t @ '', '') ts) @ '']''"

section \<open>Code generation: the process methods\<close>

definition TealVersion_process :: "meta \<Rightarrow> string \<Rightarrow> state \<Rightarrow> exn + state" where
  "TealVersion_process m version st = Inr (wr (''#pragma version '' @ version) m st)"

definition Comment_process :: "meta \<Rightarrow> string \<Rightarrow> state \<Rightarrow> exn + state" where
  "Comment_process m comment st = Inr (wr (''// '' @ comment) m st)"

definition Blank_process :: "meta \<Rightarrow> state \<Rightarrow> exn + state" where
  "Blank_process m st = Inr (wr [] m st)"

text \<open>\<^verbatim>\<open>Const.process\<close>: an assignment into the table of the current scope.\<close>

definition Const_process ::
  "meta \<Rightarrow> StackType \<Rightarrow> string \<Rightarrow> literal_value \<Rightarrow> state \<Rightarrow> exn + state" where
  "Const_process m t nm v st =
     Inr (st\<lparr> scopes := (scopes st)[node_scope m := (scopes st ! node_scope m)
            \<lparr> scope_consts := AList.update nm (t, v) (scope_consts (scopes st ! node_scope m)) \<rparr>] \<rparr>)"

text \<open>\<^verbatim>\<open>Jump.process\<close>: \<^verbatim>\<open>b.label\<close> on \<^verbatim>\<open>None\<close> raises.\<close>

definition no_label :: exn where
  "no_label =
     AttributeError ([CHR 0x27] @ ''NoneType'' @ [CHR 0x27] @ '' object has no attribute ''
       @ [CHR 0x27] @ ''label'' @ [CHR 0x27])"

definition Jump_process :: "meta \<Rightarrow> string \<Rightarrow> state \<Rightarrow> exn + state" where
  "Jump_process m block_name st =
     (let st1 = wr (''// '' @ node_line m) m st in
      case get_block (scopes st1) (node_scope m) block_name of
        None \<Rightarrow> Inl no_label
      | Some lbl \<Rightarrow> Inr (wr (''b '' @ lbl) m st1))"

definition Exit_process :: "meta \<Rightarrow> expression \<Rightarrow> state \<Rightarrow> exn + state" where
  "Exit_process m e st =
     (let st1 = wr (''// '' @ node_line m) m st in
      bind (process_in e m st1) (\<lambda>(t, teal).
        Inr (wr ''return'' m (Node_write teal m st1))))"

definition FunctionCall_process :: "meta \<Rightarrow> expression \<Rightarrow> state \<Rightarrow> exn + state" where
  "FunctionCall_process m e st =
     (let st1 = wr (''// '' @ node_line m) m st in
      bind (process_in e m st1) (\<lambda>(t, teal).
        Inr (Node_write teal m st1)))"

definition Assert_process :: "meta \<Rightarrow> expression \<Rightarrow> string option \<Rightarrow> state \<Rightarrow> exn + state" where
  "Assert_process m arg message st =
     bind (process_in arg m st) (\<lambda>(t, teal).
       if t \<noteq> Single T_int \<and> t \<noteq> Single T_any
       then Inl (AssertionError
                  (''Incorrect type for assert. Expected int, got '' @ str_expr_type t))
       else
         let st1 = Node_write teal m (wr (''// '' @ node_line m) m st) in
         case message of
           Some msg \<Rightarrow>
             if msg \<noteq> []
             then Inr (wr (''assert // '' @ msg) m
                        (st1\<lparr> error_messages :=
                                AList.update (node_line_no m) msg (error_messages st1) \<rparr>))
             else Inr (wr ''assert'' m st1)
         | None \<Rightarrow> Inr (wr ''assert'' m st1))"

text \<open>
  \<^verbatim>\<open>IntDeclaration.process\<close> and \<^verbatim>\<open>BytesDeclaration.process\<close>, which differ in the
  declared type only.
\<close>

definition Declaration_process ::
  "StackType \<Rightarrow> meta \<Rightarrow> string \<Rightarrow> expression option \<Rightarrow> state \<Rightarrow> exn + state" where
  "Declaration_process ty m nm e st =
     bind (declare_var (node_scope m) nm ty st) (\<lambda>(slot, st1).
       let st2 = wr (''// '' @ node_line m @ '' [slot '' @ str_nat slot @ '']'') m st1 in
       case e of
         None \<Rightarrow> Inr st2
       | Some ex \<Rightarrow>
           bind (process_in ex m st2) (\<lambda>(t, teal).
             if t \<noteq> Single ty \<and> t \<noteq> Single T_any
             then Inl (AssertionError
                        (''Incorrect type for '' @ str_StackType ty @ '' assignment. Expected ''
                          @ str_StackType ty @ '', got '' @ str_expr_type t))
             else Inr (wr (''store '' @ str_nat slot @ '' // '' @ nm) m
                        (Node_write teal m st2))))"

text \<open>
  \<^verbatim>\<open>Assignment.process\<close>. The loop over the names writes a \<^verbatim>\<open>pop\<close> for the placeholder
  and a \<^verbatim>\<open>store\<close> for a declared variable of a matching type.
\<close>

fun assign_names :: "meta \<Rightarrow> (string \<times> StackType) list \<Rightarrow> state \<Rightarrow> exn + state" where
  "assign_names m [] st = Inr st"
| "assign_names m ((nm, ty) # rest) st =
     (if nm = ''_'' then assign_names m rest (wr ''pop // discarding value for _'' m st)
      else
        (case get_var (scopes st) (node_scope m) nm of
           None \<Rightarrow> Inl (Exception (''Var '' @ [CHR 0x22] @ nm @ [CHR 0x22]
                                   @ '' not declared in current scope''))
         | Some (slot, t) \<Rightarrow>
             if ty \<noteq> T_any \<and> ty \<noteq> t
             then Inl (AssertionError
                        (''Incorrect type for '' @ str_StackType t @ '' assignment. Expected ''
                          @ str_StackType t @ '', got '' @ str_StackType ty))
             else assign_names m rest (wr (''store '' @ str_nat slot @ '' // '' @ nm) m st)))"

definition Assignment_process :: "meta \<Rightarrow> string \<Rightarrow> expression \<Rightarrow> state \<Rightarrow> exn + state" where
  "Assignment_process m names e st =
     bind (process_in e m st) (\<lambda>(t, teal).
       let st1 = Node_write teal m (wr (''// '' @ node_line m) m st);
           types = (case t of Multi ts \<Rightarrow> ts | Single ty \<Rightarrow> [ty]);
           nms = map strip (split_on CHR '','' names)
       in if length types \<noteq> length nms
          then Inl (AssertionError
                     (''Incorrect number of names ('' @ str_nat (length nms) @ '') for values (''
                       @ str_nat (length types) @ '') in assignment''))
          else assign_names m (zip nms types) st1)"

definition Block_process :: "meta \<Rightarrow> string \<Rightarrow> string \<Rightarrow> state \<Rightarrow> exn + state" where
  "Block_process m nm label st =
     Inr (wr (label @ '':'') m (wr (''// block '' @ nm) m st))"

definition TealLine_process :: "meta \<Rightarrow> state \<Rightarrow> exn + state" where
  "TealLine_process m st = Inr (wr (node_line m) m st)"

definition Break_process :: "meta \<Rightarrow> string \<Rightarrow> state \<Rightarrow> exn + state" where
  "Break_process m end_label st =
     Inr (wr (''b '' @ end_label) m (wr (''// '' @ node_line m) m st))"

definition IfThen_process :: "meta \<Rightarrow> state \<Rightarrow> exn + state" where
  "IfThen_process m st = Inr (wr ''// then:'' m st)"

definition Elif_process ::
  "meta \<Rightarrow> string option \<Rightarrow> expression \<Rightarrow> string \<Rightarrow> state \<Rightarrow> exn + state" where
  "Elif_process m modifier condition next_label st =
     (let st1 = wr (''// '' @ node_line m) m st in
      bind (process_in condition m st1) (\<lambda>(t, teal).
        let st2 = Node_write teal m st1 in
        if modifier = Some ''not'' then Inr (wr (''bnz '' @ next_label) m st2)
        else Inr (wr (''bz '' @ next_label) m st2)))"

definition Else_process :: "meta \<Rightarrow> state \<Rightarrow> exn + state" where
  "Else_process m st = Inr (wr (''// '' @ node_line m) m st)"

subsection \<open>Return\<close>

text \<open>
  \<^verbatim>\<open>split_return_args\<close>. The loop looks for the first comma outside quotes and
  parentheses; \<open>find_split\<close> is that loop, from index \<open>i\<close> on, and gives the index found.
\<close>

fun find_split :: "string \<Rightarrow> nat \<Rightarrow> int \<Rightarrow> bool \<Rightarrow> nat option" where
  "find_split [] i parentheses quotes = None"
| "find_split (c # cs) i parentheses quotes =
     (let quotes' = (if c = CHR 0x22 then \<not> quotes else quotes) in
      if \<not> quotes' then
        (let p1 = (if c = CHR ''('' then parentheses + 1 else parentheses);
             p2 = (if c = CHR '')'' then p1 - 1 else p1)
         in if p2 = 0 \<and> c = CHR '','' then Some i
            else find_split cs (i + 1) p2 quotes')
      else find_split cs (i + 1) parentheses quotes')"

lemma length_strip_le: "length (strip s) \<le> length s"
proof -
  have "length (dropWhile is_space (rev (dropWhile is_space s))) \<le> length (rev (dropWhile is_space s))"
    by (rule length_dropWhile_le)
  also have "\<dots> \<le> length s"
    by (simp add: length_dropWhile_le)
  finally show ?thesis by (simp add: strip_def)
qed

function split_return_args :: "string \<Rightarrow> string list" where
  "split_return_args s =
     (case find_split s 0 0 False of
        Some i \<Rightarrow> strip (take i s) # split_return_args (strip (drop (i + 1) s))
      | None \<Rightarrow> [s])"
  by pat_completeness auto

lemma find_split_bound: "find_split s i p q = Some k \<Longrightarrow> i \<le> k \<and> k < i + length s"
proof (induction s i p q rule: find_split.induct)
  case (1 i parentheses quotes)
  then show ?case by simp
next
  case (2 c cs i parentheses quotes)
  then show ?case
    by (fastforce simp: Let_def split: if_splits)
qed

termination split_return_args
proof (relation "measure length")
  show "wf (measure length)" by simp
next
  fix s :: string and i
  assume "find_split s 0 0 False = Some i"
  then have "i < length s" using find_split_bound [of s 0 0 False i] by simp
  then have "length (drop (i + 1) s) < length s" by simp
  moreover have "length (strip (drop (i + 1) s)) \<le> length (drop (i + 1) s)"
    by (rule length_strip_le)
  ultimately show "(strip (drop (i + 1) s), s) \<in> measure length" by simp
qed

declare split_return_args.simps [simp del]

text \<open>
  \<^verbatim>\<open>Return.process\<close>. The expressions are parsed here, during code generation, by
  \<^verbatim>\<open>GenericExpression.parse\<close> of the expression module, the parameter \<open>P\<close>.
\<close>

type_synonym expr_parser = "string \<Rightarrow> exn + expression"

fun return_args :: "expr_parser \<Rightarrow> meta \<Rightarrow> string list \<Rightarrow> state \<Rightarrow> exn + state" where
  "return_args P m [] st = Inr st"
| "return_args P m (a # as) st =
     bind (P (strip a)) (\<lambda>e.
       bind (process_in e m st) (\<lambda>(t, teal).
         return_args P m as (Node_write teal m st)))"

definition Return_process :: "expr_parser \<Rightarrow> meta \<Rightarrow> string \<Rightarrow> state \<Rightarrow> exn + state" where
  "Return_process P m args st =
     (let st1 = wr (''// '' @ node_line m) m st in
      bind (if args \<noteq> [] then return_args P m (rev (split_return_args args)) st1 else Inr st1)
        (\<lambda>st2. Inr (wr ''retsub'' m st2)))"

section \<open>Code generation: the visit methods\<close>

subsection \<open>Switch\<close>

text \<open>The loop of \<^verbatim>\<open>Switch.visit\<close> over the options; \<open>subject\<close> is \<^verbatim>\<open>self.expression.teal()\<close>.\<close>

fun switch_options :: "meta \<Rightarrow> string list \<Rightarrow> SwitchOption list \<Rightarrow> state \<Rightarrow> exn + state" where
  "switch_options m subject [] st = Inr st"
| "switch_options m subject (SwitchOption om e block_name # rest) st =
     bind (process_in e m st) (\<lambda>(t, teal).
       let st1 = wr ''=='' m (Node_write teal m (Node_write subject m st)) in
       case get_block (scopes st1) (node_scope m) block_name of
         None \<Rightarrow> Inl no_label
       | Some lbl \<Rightarrow> switch_options m subject rest (wr (''bnz '' @ lbl) m st1))"

definition Switch_visit ::
  "meta \<Rightarrow> expression \<Rightarrow> SwitchOption list \<Rightarrow> SwitchElse option \<Rightarrow> state \<Rightarrow> exn + state" where
  "Switch_visit m e options else_opt st =
     (let st1 = wr (''// '' @ node_line m) m st in
      bind (process_in e m st1) (\<lambda>(t, subject).
        bind (switch_options m subject options st1) (\<lambda>st2.
          case else_opt of
            Some (SwitchElse em block_name) \<Rightarrow>
              (case get_block (scopes st2) (node_scope m) block_name of
                 None \<Rightarrow> Inl no_label
               | Some lbl \<Rightarrow> Inr (wr (''b '' @ lbl @ '' // else'') m st2))
          | None \<Rightarrow> Inr (wr ''err // unexpected value'' m st2))))"

subsection \<open>Inner transactions\<close>

text \<open>The three lines of \<^verbatim>\<open>InnerTxn.visit\<close> that emit one field.\<close>

definition emit_field :: "meta \<Rightarrow> InnerTxnFieldSetter \<Rightarrow> state \<Rightarrow> exn + state" where
  "emit_field m f st =
     bind (process_in (field_expression f) m st) (\<lambda>(t, teal).
       Inr (wr (''itxn_field '' @ field_name f) m (Node_write teal m st)))"

text \<open>
  The first loop of \<^verbatim>\<open>InnerTxn.visit\<close>. \<open>array_fields\<close> is the \<^verbatim>\<open>defaultdict(list)\<close>:
  reading a missing key inserts the empty list under it.
\<close>

fun scan_fields ::
  "meta \<Rightarrow> InnerTxnFieldSetter list \<Rightarrow> (string, InnerTxnFieldSetter list) dict \<Rightarrow> state
     \<Rightarrow> exn + ((string, InnerTxnFieldSetter list) dict \<times> state)" where
  "scan_fields m [] array_fields st = Inr (array_fields, st)"
| "scan_fields m (f # rest) array_fields st =
     (case index f of
        Some idx \<Rightarrow>
          (let i = py_int idx;
               d = (case map_of array_fields (field_name f) of
                      None \<Rightarrow> AList.update (field_name f) [] array_fields
                    | Some _ \<Rightarrow> array_fields);
               a = (case map_of d (field_name f) of None \<Rightarrow> [] | Some l \<Rightarrow> l);
               n = length a
           in if n = i then scan_fields m rest (AList.update (field_name f) (a @ [f]) d) st
              else Inl (ParseError (''Inccorrect field array index '' @ str_nat i
                          @ '' (expected '' @ str_nat n @ '') at line ''
                          @ str_nat (line_no st) @ ''!'')))
      | None \<Rightarrow> bind (emit_field m f st) (\<lambda>st1. scan_fields m rest array_fields st1))"

text \<open>The second loop: the buffered fields, dictionary value by dictionary value.\<close>

fun emit_fields :: "meta \<Rightarrow> InnerTxnFieldSetter list \<Rightarrow> state \<Rightarrow> exn + state" where
  "emit_fields m [] st = Inr st"
| "emit_fields m (f # rest) st = bind (emit_field m f st) (\<lambda>st1. emit_fields m rest st1)"

definition InnerTxn_visit :: "meta \<Rightarrow> InnerTxnFieldSetter list \<Rightarrow> state \<Rightarrow> exn + state" where
  "InnerTxn_visit m fs st =
     bind (scan_fields m fs [] (wr (''// '' @ node_line m) m st)) (\<lambda>(array_fields, st1).
       emit_fields m (concat (map snd array_fields)) st1)"

subsection \<open>Loops and subroutines: the code around the body\<close>

text \<open>
  \<^verbatim>\<open>ForStatement.visit_implicit_counter\<close>, before and after the loop over the child
  nodes.
\<close>

definition implicit_counter_head ::
  "meta \<Rightarrow> expression \<Rightarrow> expression \<Rightarrow> string \<Rightarrow> string \<Rightarrow> state \<Rightarrow> exn + state" where
  "implicit_counter_head m start end start_label end_label st =
     (let st1 = inc_level (wr (''// '' @ node_line m) m st) in
      bind (process_in start m st1) (\<lambda>(ts, start_teal).
        bind (process_in end m st1) (\<lambda>(te, end_teal).
          Inr (wr (''bnz '' @ end_label) m
              (wr ''=='' m
              (Node_write end_teal m
              (wr (start_label @ '':'') m
              (wr ''dup'' m
              (Node_write start_teal m st1)))))))))"

definition implicit_counter_tail :: "meta \<Rightarrow> string \<Rightarrow> string \<Rightarrow> state \<Rightarrow> state" where
  "implicit_counter_tail m start_label end_label st =
     dec_level
       (wr (end_label @ '': // end'') m
       (wr ''pop'' m
       (wr (''b '' @ start_label) m
       (wr ''dup'' m
       (wr ''+'' m
       (wr ''pushint 1'' m st))))))"

text \<open>\<^verbatim>\<open>ForStatement.visit_explicit_counter\<close>, before and after the loop over the child nodes.\<close>

definition explicit_counter_head ::
  "meta \<Rightarrow> string \<Rightarrow> expression \<Rightarrow> expression \<Rightarrow> string \<Rightarrow> string \<Rightarrow> state
     \<Rightarrow> exn + (nat \<times> state)" where
  "explicit_counter_head m var start end start_label end_label st =
     (let st1 = inc_level (wr (''// '' @ node_line m) m st) in
      bind (process_in start m st1) (\<lambda>(ts, start_teal).
        bind (process_in end m st1) (\<lambda>(te, end_teal).
          bind (declare_var (node_scope m) var T_int (Node_write start_teal m st1)) (\<lambda>(slot, st2).
            Inr (slot,
                 wr (''bnz '' @ end_label) m
                 (wr ''=='' m
                 (Node_write end_teal m
                 (wr (''load '' @ str_nat slot @ '' // '' @ var) m
                 (wr (start_label @ '':'') m
                 (wr (''store '' @ str_nat slot @ '' // '' @ var) m st2))))))))))"

definition explicit_counter_tail ::
  "meta \<Rightarrow> string \<Rightarrow> nat \<Rightarrow> string \<Rightarrow> string \<Rightarrow> state \<Rightarrow> state" where
  "explicit_counter_tail m var slot start_label end_label st =
     dec_level
       (del_var (node_scope m) var
       (wr (end_label @ '': // end'') m
       (wr (''b '' @ start_label) m
       (wr (''store '' @ str_nat slot @ '' // '' @ var) m
       (wr ''+'' m
       (wr ''pushint 1'' m
       (wr (''load '' @ str_nat slot @ '' // '' @ var) m st)))))))"

text \<open>\<^verbatim>\<open>WhileStatement.visit\<close>, before and after the loop over the child nodes.\<close>

definition while_head ::
  "meta \<Rightarrow> string option \<Rightarrow> expression \<Rightarrow> string \<Rightarrow> string \<Rightarrow> state \<Rightarrow> exn + state" where
  "while_head m modifier condition start_label end_label st =
     (let st1 = inc_level (wr (start_label @ '':'') m (wr (''// '' @ node_line m) m st)) in
      bind (process_in condition m st1) (\<lambda>(t, teal).
        let st2 = Node_write teal m st1 in
        if modifier = Some ''not'' then Inr (wr (''bnz '' @ end_label) m st2)
        else Inr (wr (''bz '' @ end_label) m st2)))"

definition while_tail :: "meta \<Rightarrow> string \<Rightarrow> string \<Rightarrow> state \<Rightarrow> state" where
  "while_tail m start_label end_label st =
     dec_level (wr (end_label @ '': // end'') m (wr (''b '' @ start_label) m st))"

text \<open>\<^verbatim>\<open>IfStatement.visit\<close>, up to the visit of the first clause.\<close>

definition if_head ::
  "meta \<Rightarrow> string option \<Rightarrow> expression \<Rightarrow> string \<Rightarrow> state \<Rightarrow> exn + state" where
  "if_head m modifier condition next_label st =
     (let st1 = inc_level (wr (''// '' @ node_line m) m st) in
      bind (process_in condition m st1) (\<lambda>(t, teal).
        let st2 = Node_write teal m st1 in
        if modifier = Some ''not'' then Inr (wr (''bnz '' @ next_label) m st2)
        else Inr (wr (''bz '' @ next_label) m st2)))"

text \<open>The first loop of \<^verbatim>\<open>Func.visit\<close>, over the reversed arguments.\<close>

fun func_args :: "meta \<Rightarrow> (string \<times> StackType) list \<Rightarrow> state \<Rightarrow> exn + state" where
  "func_args m [] st = Inr st"
| "func_args m ((nm, ty) # rest) st =
     bind (declare_var (node_scope m) nm ty st) (\<lambda>(slot, st1).
       func_args m rest (wr (''store '' @ str_nat slot @ '' // '' @ nm) m st1))"

definition func_head ::
  "meta \<Rightarrow> (string \<times> StackType) list \<Rightarrow> string \<Rightarrow> state \<Rightarrow> exn + state" where
  "func_head m args label st =
     func_args m (rev args) (wr (label @ '':'') m (wr (''// '' @ node_line m) m st))"

subsection \<open>The tree walk\<close>

text \<open>\<^verbatim>\<open>Node.has_child_node(InnerTxn)\<close>, over the list \<^verbatim>\<open>nodes\<close> of each class.\<close>

fun is_InnerTxn :: "Node \<Rightarrow> bool" where
  "is_InnerTxn (InnerTxn m fs) = True"
| "is_InnerTxn n = False"

fun has_child_node :: "Node \<Rightarrow> bool"
  and any_child_node :: "Node list \<Rightarrow> bool"
  and has_child_node_Elifs :: "Elif list \<Rightarrow> bool" where
  "has_child_node (Program m kids) = any_child_node kids"
| "has_child_node (Block m nm lbl kids) = any_child_node kids"
| "has_child_node (Teal m kids) = any_child_node kids"
| "has_child_node (InnerGroup m kids) = any_child_node kids"
| "has_child_node (WhileStatement m md c sl el kids) = any_child_node kids"
| "has_child_node (ForStatement m v s e sl el kids) = any_child_node kids"
| "has_child_node (Func m nm args lbl kids) = any_child_node kids"
| "has_child_node (IfStatement m md c el (IfThen tm tkids) elifs else_opt) =
     (any_child_node tkids \<or> has_child_node_Elifs elifs \<or>
      (case else_opt of None \<Rightarrow> False | Some (Else em lbl ekids) \<Rightarrow> any_child_node ekids))"
| "has_child_node n = False"
| "any_child_node [] = False"
| "any_child_node (n # ns) = (is_InnerTxn n \<or> has_child_node n \<or> any_child_node ns)"
| "has_child_node_Elifs [] = False"
| "has_child_node_Elifs (Elif m md c lbl kids # es) =
     (any_child_node kids \<or> has_child_node_Elifs es)"

text \<open>
  A node without children under the \<^verbatim>\<open>visit\<close> of \<^verbatim>\<open>Node\<close>: the wrapped \<^verbatim>\<open>process\<close>, then
  the level goes up and down around the empty loop.
\<close>

definition leaf :: "meta \<Rightarrow> exn + state \<Rightarrow> exn + state" where
  "leaf m r = bind (wrap m r) (\<lambda>st1. Inr (dec_level (inc_level st1)))"

text \<open>
  \<^verbatim>\<open>visit\<close> of every class. \<open>visit_nodes\<close> is the loop \<^verbatim>\<open>for n in self.nodes: n.visit()\<close>,
  \<open>visit_group\<close> the loop of \<^verbatim>\<open>InnerGroup.visit\<close>, \<open>visit_elifs\<close> the loop of
  \<^verbatim>\<open>IfStatement.visit\<close> over \<^verbatim>\<open>self.elifs\<close>; \<open>visit_Elif\<close> takes the \<^verbatim>\<open>next_label\<close> that
  \<^verbatim>\<open>IfStatement.visit\<close> stored in the clause.
\<close>

fun visit :: "expr_parser \<Rightarrow> Node \<Rightarrow> state \<Rightarrow> exn + state"
  and visit_nodes :: "expr_parser \<Rightarrow> Node list \<Rightarrow> state \<Rightarrow> exn + state"
  and visit_group :: "expr_parser \<Rightarrow> meta \<Rightarrow> Node list \<Rightarrow> state \<Rightarrow> exn + state"
  and visit_IfThen :: "expr_parser \<Rightarrow> IfThen \<Rightarrow> state \<Rightarrow> exn + state"
  and visit_Elif :: "expr_parser \<Rightarrow> string \<Rightarrow> Elif \<Rightarrow> state \<Rightarrow> exn + state"
  and visit_elifs ::
    "expr_parser \<Rightarrow> meta \<Rightarrow> string \<Rightarrow> string option \<Rightarrow> Elif list \<Rightarrow> state \<Rightarrow> exn + state"
  and visit_Else :: "expr_parser \<Rightarrow> Else \<Rightarrow> state \<Rightarrow> exn + state" where
  "visit P (Program m kids) st = visit_nodes P kids st"
| "visit P (TealVersion m version) st = leaf m (TealVersion_process m version st)"
| "visit P (Comment m comment) st = leaf m (Comment_process m comment st)"
| "visit P (Blank m) st = leaf m (Blank_process m st)"
| "visit P (Const m ty nm v) st = leaf m (Const_process m ty nm v st)"
| "visit P (Jump m block_name) st = leaf m (Jump_process m block_name st)"
| "visit P (Exit m e) st = leaf m (Exit_process m e st)"
| "visit P (FunctionCall m e) st = leaf m (FunctionCall_process m e st)"
| "visit P (Assert m arg message) st = leaf m (Assert_process m arg message st)"
| "visit P (BytesDeclaration m nm e) st = leaf m (Declaration_process T_bytes m nm e st)"
| "visit P (IntDeclaration m nm e) st = leaf m (Declaration_process T_int m nm e st)"
| "visit P (Assignment m names e) st = leaf m (Assignment_process m names e st)"
| "visit P (Block m nm label kids) st =
     bind (wrap m (Block_process m nm label st)) (\<lambda>st1.
       bind (visit_nodes P kids (inc_level st1)) (\<lambda>st2. Inr (dec_level st2)))"
| "visit P (Switch m e options else_opt) st = Switch_visit m e options else_opt st"
| "visit P (TealLine m) st = leaf m (TealLine_process m st)"
| "visit P (Teal m kids) st = visit_nodes P kids st"
| "visit P (InnerTxn m fs) st = InnerTxn_visit m fs st"
| "visit P (InnerGroup m kids) st =
     bind (visit_group P m kids (wr ''itxn_begin'' m (wr (''// '' @ node_line m) m st)))
       (\<lambda>st1. Inr (wr ''itxn_submit'' m st1))"
| "visit P (IfStatement m modifier condition end_label if_then elifs else_opt) st =
     (let else_lbl = map_option else_label else_opt;
          next_label = (case elifs of e # _ \<Rightarrow> elif_label e
                        | [] \<Rightarrow> (case else_lbl of Some l \<Rightarrow> l | None \<Rightarrow> end_label))
      in bind (if_head m modifier condition next_label st) (\<lambda>st1.
           bind (visit_IfThen P if_then st1) (\<lambda>st2.
             bind (visit_elifs P m end_label else_lbl elifs
                     (if elifs \<noteq> [] \<or> else_opt \<noteq> None then wr (''b '' @ end_label) m st2
                      else st2)) (\<lambda>st3.
               bind (case else_opt of
                       None \<Rightarrow> Inr st3
                     | Some e \<Rightarrow> visit_Else P e (wr (else_label e @ '':'') m st3)) (\<lambda>st4.
                 Inr (dec_level (wr (end_label @ '': // end'') m st4)))))))"
| "visit P (Break m end_label) st = leaf m (Break_process m end_label st)"
| "visit P (WhileStatement m modifier condition start_label end_label kids) st =
     bind (while_head m modifier condition start_label end_label st) (\<lambda>st1.
       bind (visit_nodes P kids st1) (\<lambda>st2. Inr (while_tail m start_label end_label st2)))"
| "visit P (ForStatement m var start end start_label end_label kids) st =
     (if var = ''_''
      then bind (implicit_counter_head m start end start_label end_label st) (\<lambda>st1.
             bind (visit_nodes P kids st1) (\<lambda>st2.
               Inr (implicit_counter_tail m start_label end_label st2)))
      else bind (explicit_counter_head m var start end start_label end_label st) (\<lambda>(slot, st1).
             bind (visit_nodes P kids st1) (\<lambda>st2.
               Inr (explicit_counter_tail m var slot start_label end_label st2))))"
| "visit P (Func m nm args label kids) st =
     bind (func_head m args label st) (\<lambda>st1. visit_nodes P kids st1)"
| "visit P (Return m args) st = leaf m (Return_process P m args st)"
| "visit_nodes P [] st = Inr st"
| "visit_nodes P (n # ns) st = bind (visit P n st) (\<lambda>st1. visit_nodes P ns st1)"
| "visit_group P m [] st = Inr st"
| "visit_group P m (n # ns) st =
     bind (visit P n st) (\<lambda>st1.
       visit_group P m ns
         (if ns \<noteq> [] \<and> (is_InnerTxn n \<or> has_child_node n) then wr ''itxn_next'' m st1
          else st1))"
| "visit_IfThen P (IfThen m kids) st =
     bind (wrap m (IfThen_process m st)) (\<lambda>st1.
       bind (visit_nodes P kids (inc_level st1)) (\<lambda>st2. Inr (dec_level st2)))"
| "visit_Elif P next_label (Elif m modifier condition label kids) st =
     bind (wrap m (Elif_process m modifier condition next_label st)) (\<lambda>st1.
       bind (visit_nodes P kids (inc_level st1)) (\<lambda>st2. Inr (dec_level st2)))"
| "visit_elifs P m end_label else_lbl [] st = Inr st"
| "visit_elifs P m end_label else_lbl (e # es) st =
     (let next_label = (case es of e2 # _ \<Rightarrow> elif_label e2
                        | [] \<Rightarrow> (case else_lbl of Some l \<Rightarrow> l | None \<Rightarrow> end_label))
      in bind (visit_Elif P next_label e (wr (elif_label e @ '':'') m st)) (\<lambda>st1.
           visit_elifs P m end_label else_lbl es
             (if es \<noteq> [] \<or> else_lbl \<noteq> None then wr (''b '' @ end_label) m st1 else st1)))"
| "visit_Else P (Else m label kids) st =
     bind (wrap m (Else_process m st)) (\<lambda>st1.
       bind (visit_nodes P kids (inc_level st1)) (\<lambda>st2. Inr (dec_level st2)))"

text \<open>\<^verbatim>\<open>TealishCompiler.compile\<close> on the tree that \<^verbatim>\<open>parse\<close> built.\<close>

definition compile :: "expr_parser \<Rightarrow> Node \<Rightarrow> state \<Rightarrow> exn + state" where
  "compile P root st = visit P root st"

section \<open>Parsing: the line cursor and the line patterns\<close>

text \<open>
  \<^verbatim>\<open>TealishCompiler.consume_line\<close> and \<^verbatim>\<open>TealishCompiler.peek\<close>; \<open>None\<close> is Python's
  \<^verbatim>\<open>None\<close>, returned at the end of the input. The cursor starts at 0 and moves by one
  below the length only, so it never passes the length.
\<close>

definition consume_line :: "state \<Rightarrow> string option \<times> state" where
  "consume_line c =
     (if line_no c < length (source_lines c)
      then (Some (strip (source_lines c ! line_no c)), c\<lparr> line_no := line_no c + 1 \<rparr>)
      else (None, c))"

definition peek :: "state \<Rightarrow> string option" where
  "peek c =
     (if line_no c < length (source_lines c) then Some (strip (source_lines c ! line_no c))
      else None)"

text \<open>
  The character classes of the patterns, on ASCII: \<^verbatim>\<open>[a-z]\<close>, \<^verbatim>\<open>[A-Z]\<close>, \<^verbatim>\<open>\d\<close> and
  \<^verbatim>\<open>[a-zA-Z0-9_]\<close>; \<^verbatim>\<open>\s\<close> is \<open>is_space\<close>.
\<close>

definition is_lower :: "char \<Rightarrow> bool" where
  "is_lower c \<longleftrightarrow> 97 \<le> (of_char c :: nat) \<and> (of_char c :: nat) \<le> 122"

definition is_upper :: "char \<Rightarrow> bool" where
  "is_upper c \<longleftrightarrow> 65 \<le> (of_char c :: nat) \<and> (of_char c :: nat) \<le> 90"

definition is_digit :: "char \<Rightarrow> bool" where
  "is_digit c \<longleftrightarrow> 48 \<le> (of_char c :: nat) \<and> (of_char c :: nat) \<le> 57"

definition is_word :: "char \<Rightarrow> bool" where
  "is_word c \<longleftrightarrow> is_lower c \<or> is_upper c \<or> is_digit c \<or> c = CHR ''_''"

text \<open>
  Each class matches its line with \<^verbatim>\<open>re.match(self.pattern, self.line)\<close> and keeps the named
  groups. The functions below are these matches, pattern by pattern: \<open>None\<close> when the
  pattern does not match, the groups otherwise (an optional group that took no part
  is \<open>None\<close>). A greedy \<^verbatim>\<open>.*\<close> before a literal ends at the last occurrence of the
  literal, a lazy \<^verbatim>\<open>.*?\<close> at the first.
\<close>

text \<open>The split at the last and at the first occurrence of a separator.\<close>

fun split_last :: "string \<Rightarrow> string \<Rightarrow> (string \<times> string) option" where
  "split_last sep [] = None"
| "split_last sep (c # cs) =
     (case split_last sep cs of
        Some (a, b) \<Rightarrow> Some (c # a, b)
      | None \<Rightarrow> if startswith (c # cs) sep then Some ([], drop (length sep) (c # cs)) else None)"

fun split_first :: "string \<Rightarrow> string \<Rightarrow> (string \<times> string) option" where
  "split_first sep [] = None"
| "split_first sep (c # cs) =
     (if startswith (c # cs) sep then Some ([], drop (length sep) (c # cs))
      else (case split_first sep cs of
              Some (a, b) \<Rightarrow> Some (c # a, b)
            | None \<Rightarrow> None))"

text \<open>\<^verbatim>\<open>#pragma version (?P<version>\d+)$\<close>\<close>

definition match_TealVersion :: "string \<Rightarrow> string option" where
  "match_TealVersion line =
     (let v = drop 16 line in
      if startswith line ''#pragma version '' \<and> v \<noteq> [] \<and> list_all is_digit v then Some v
      else None)"

text \<open>\<^verbatim>\<open>#\s*(?P<comment>.*)$\<close>\<close>

definition match_Comment :: "string \<Rightarrow> string option" where
  "match_Comment line =
     (if startswith line ''#'' then Some (dropWhile is_space (drop 1 line)) else None)"

text \<open>\<^verbatim>\<open>const (?P<type>\bint\b|\bbytes\b) (?P<name>[A-Z][a-zA-Z0-9_]*) = (?P<expression>.*)$\<close>\<close>

definition match_Const :: "string \<Rightarrow> (StackType \<times> string \<times> string) option" where
  "match_Const line =
     (if \<not> startswith line ''const '' then None
      else
        let r = drop 6 line;
            ty = (if startswith r ''int '' then Some (T_int, drop 4 r)
                  else if startswith r ''bytes '' then Some (T_bytes, drop 6 r)
                  else None)
        in case ty of
             None \<Rightarrow> None
           | Some (t, r1) \<Rightarrow>
               let nm = takeWhile is_word r1; r2 = dropWhile is_word r1 in
               if nm \<noteq> [] \<and> is_upper (hd nm) \<and> startswith r2 '' = ''
               then Some (t, nm, drop 3 r2) else None)"

text \<open>\<^verbatim>\<open>jump (?P<block_name>.*)$\<close>\<close>

definition match_Jump :: "string \<Rightarrow> string option" where
  "match_Jump line = (if startswith line ''jump '' then Some (drop 5 line) else None)"

text \<open>\<^verbatim>\<open>exit\((?P<expression>.*)\)$\<close>\<close>

definition match_Exit :: "string \<Rightarrow> string option" where
  "match_Exit line =
     (if startswith line ''exit('' \<and> endswith line '')'' \<and> 6 \<le> length line
      then Some (take (length line - 6) (drop 5 line)) else None)"

text \<open>\<^verbatim>\<open>(?P<expression>[a-zA-Z_0-9]+\(.*\))$\<close>\<close>

definition match_FunctionCall :: "string \<Rightarrow> string option" where
  "match_FunctionCall line =
     (let nm = takeWhile is_word line; r = dropWhile is_word line in
      if nm \<noteq> [] \<and> startswith r ''('' \<and> endswith r '')'' \<and> 2 \<le> length r then Some line
      else None)"

text \<open>
  \<^verbatim>\<open>assert\((?P<arg>.*?)(, "(?P<message>.*?)")?\)$\<close>. The lazy \<^verbatim>\<open>arg\<close> ends at the first
  comma, space and quote from which the rest of the line can be the message group; when
  there is none, the group takes no part and \<^verbatim>\<open>arg\<close> runs to the closing parenthesis.
\<close>

fun assert_split :: "string \<Rightarrow> (string \<times> string) option" where
  "assert_split [] = None"
| "assert_split (c # cs) =
     (if startswith (c # cs) ('', '' @ [CHR 0x22]) \<and> endswith (c # cs) ([CHR 0x22] @ '')'')
         \<and> 5 \<le> length (c # cs)
      then Some ([], take (length (c # cs) - 5) (drop 3 (c # cs)))
      else (case assert_split cs of
              Some (a, msg) \<Rightarrow> Some (c # a, msg)
            | None \<Rightarrow> None))"

definition match_Assert :: "string \<Rightarrow> (string \<times> string option) option" where
  "match_Assert line =
     (if \<not> startswith line ''assert('' then None
      else
        let r = drop 7 line in
        case assert_split r of
          Some (arg, msg) \<Rightarrow> Some (arg, Some msg)
        | None \<Rightarrow> if endswith r '')'' then Some (take (length r - 1) r, None) else None)"

text \<open>
  \<^verbatim>\<open>int (?P<name>[a-z][a-zA-Z0-9_]*)( = (?P<expression>.*))?$\<close>, and the same with
  \<^verbatim>\<open>bytes\<close>: \<open>kw\<close> is the keyword with its space.
\<close>

definition match_Declaration :: "string \<Rightarrow> string \<Rightarrow> (string \<times> string option) option" where
  "match_Declaration kw line =
     (if \<not> startswith line kw then None
      else
        let r = drop (length kw) line;
            nm = takeWhile is_word r; r1 = dropWhile is_word r
        in if nm = [] \<or> \<not> is_lower (hd nm) then None
           else if r1 = [] then Some (nm, None)
           else if startswith r1 '' = '' then Some (nm, Some (drop 3 r1))
           else None)"

text \<open>
  \<^verbatim>\<open>(?P<names>([a-z_][a-zA-Z0-9_]*,?\s*)+) = (?P<expression>.*)$\<close>. The group \<^verbatim>\<open>names\<close>
  has no equals sign, so it ends one character before the first one of the line, which
  must stand between two spaces. \<open>names_ok\<close> decides whether a string is a sequence
  of names, each with an optional comma and optional white space after it; its states
  are: a name must start, inside a name, after a comma, in white space.
\<close>

datatype names_state = NeedName | InName | AfterComma | InSpace

fun names_ok :: "names_state \<Rightarrow> string \<Rightarrow> bool" where
  "names_ok s [] = (s \<noteq> NeedName)"
| "names_ok NeedName (c # cs) = ((is_lower c \<or> c = CHR ''_'') \<and> names_ok InName cs)"
| "names_ok InName (c # cs) =
     (if is_word c then names_ok InName cs
      else if c = CHR '','' then names_ok AfterComma cs
      else is_space c \<and> names_ok InSpace cs)"
| "names_ok AfterComma (c # cs) =
     (if is_lower c \<or> c = CHR ''_'' then names_ok InName cs
      else is_space c \<and> names_ok InSpace cs)"
| "names_ok InSpace (c # cs) =
     (if is_lower c \<or> c = CHR ''_'' then names_ok InName cs
      else is_space c \<and> names_ok InSpace cs)"

definition match_Assignment :: "string \<Rightarrow> (string \<times> string) option" where
  "match_Assignment line =
     (let lhs = takeWhile (\<lambda>c. c \<noteq> CHR ''='') line;
          rest = dropWhile (\<lambda>c. c \<noteq> CHR ''='') line
      in if lhs \<noteq> [] \<and> last lhs = CHR '' '' \<and> startswith rest ''= ''
            \<and> names_ok NeedName (butlast lhs)
         then Some (butlast lhs, drop 2 rest) else None)"

text \<open>\<^verbatim>\<open>block (?P<name>[a-zA-Z_0-9]+):$\<close>\<close>

definition match_Block :: "string \<Rightarrow> string option" where
  "match_Block line =
     (let r = drop 6 line; nm = takeWhile is_word r in
      if startswith line ''block '' \<and> nm \<noteq> [] \<and> dropWhile is_word r = '':'' then Some nm
      else None)"

text \<open>\<^verbatim>\<open>(?P<expression>.*): (?P<block_name>.*)\<close>\<close>

definition match_SwitchOption :: "string \<Rightarrow> (string \<times> string) option" where
  "match_SwitchOption line = split_last '': '' line"

text \<open>\<^verbatim>\<open>else: (?P<block_name>.*)\<close>\<close>

definition match_SwitchElse :: "string \<Rightarrow> string option" where
  "match_SwitchElse line = (if startswith line ''else: '' then Some (drop 6 line) else None)"

text \<open>\<^verbatim>\<open>switch (?P<expression>.*):$\<close>\<close>

definition match_Switch :: "string \<Rightarrow> string option" where
  "match_Switch line =
     (if startswith line ''switch '' \<and> endswith line '':''
      then Some (take (length line - 8) (drop 7 line)) else None)"

text \<open>
  \<^verbatim>\<open>(?P<field_name>.*?)(\[(?P<index>\d\d?)\])?: (?P<expression>.*)\<close>. At the first
  position from which the rest matches, the index group is tried with two digits, with
  one digit, and then left out.
\<close>

fun match_InnerTxnFieldSetter :: "string \<Rightarrow> (string \<times> string option \<times> string) option" where
  "match_InnerTxnFieldSetter [] = None"
| "match_InnerTxnFieldSetter (c # cs) =
     (let s = c # cs in
      if c = CHR ''['' \<and> 6 \<le> length s \<and> is_digit (s ! 1) \<and> is_digit (s ! 2)
         \<and> take 3 (drop 3 s) = '']: ''
      then Some ([], Some (take 2 cs), drop 6 s)
      else if c = CHR ''['' \<and> 5 \<le> length s \<and> is_digit (s ! 1) \<and> take 3 (drop 2 s) = '']: ''
      then Some ([], Some (take 1 cs), drop 5 s)
      else if startswith s '': '' then Some ([], None, drop 2 s)
      else (case match_InnerTxnFieldSetter cs of
              Some (nm, idx, e) \<Rightarrow> Some (c # nm, idx, e)
            | None \<Rightarrow> None))"

text \<open>
  \<^verbatim>\<open>if ((?P<modifier>not) )?(?P<condition>.*):$\<close>, and the same with \<^verbatim>\<open>while\<close>;
  \<open>kw\<close> is the keyword with its space.
\<close>

definition match_conditional :: "string \<Rightarrow> string \<Rightarrow> (string option \<times> string) option" where
  "match_conditional kw line =
     (if startswith line kw \<and> endswith line '':''
      then if startswith line (kw @ ''not '')
           then Some (Some ''not'', take (length line - length kw - 5) (drop (length kw + 4) line))
           else Some (None, take (length line - length kw - 1) (drop (length kw) line))
      else None)"

text \<open>\<^verbatim>\<open>elif ((?P<modifier>not) )?(?P<condition>.*):\<close>, which is not anchored at the end.\<close>

definition match_Elif :: "string \<Rightarrow> (string option \<times> string) option" where
  "match_Elif line =
     (if \<not> startswith line ''elif '' then None
      else
        let r = drop 5 line;
            md = (if startswith r ''not '' then Some ''not'' else None);
            r1 = (if startswith r ''not '' then drop 4 r else r)
        in case split_last '':'' r1 of
             Some (cond, rest) \<Rightarrow> Some (md, cond)
           | None \<Rightarrow> None)"

text \<open>\<^verbatim>\<open>else:\<close>\<close>

definition match_Else :: "string \<Rightarrow> bool" where
  "match_Else line \<longleftrightarrow> startswith line ''else:''"

text \<open>\<^verbatim>\<open>break$\<close>\<close>

definition match_Break :: "string \<Rightarrow> bool" where
  "match_Break line \<longleftrightarrow> line = ''break''"

text \<open>
  \<^verbatim>\<open>for (?P<var>[a-z_][a-zA-Z0-9_]*) in (?P<start>[a-zA-Z0-9_]+):(?P<end>[a-zA-Z0-9_]+):$\<close>
\<close>

definition match_ForStatement :: "string \<Rightarrow> (string \<times> string \<times> string) option" where
  "match_ForStatement line =
     (if \<not> startswith line ''for '' then None
      else
        let r = drop 4 line;
            var = takeWhile is_word r; r1 = dropWhile is_word r;
            r2 = drop 4 r1;
            start = takeWhile is_word r2; r3 = dropWhile is_word r2;
            r4 = drop 1 r3;
            end = takeWhile is_word r4; r5 = dropWhile is_word r4
        in if var \<noteq> [] \<and> (is_lower (hd var) \<or> hd var = CHR ''_'') \<and> startswith r1 '' in ''
              \<and> start \<noteq> [] \<and> startswith r3 '':'' \<and> end \<noteq> [] \<and> r5 = '':''
           then Some (var, start, end) else None)"

text \<open>\<^verbatim>\<open>func (?P<name>[a-zA-Z_0-9]+)\((?P<args>.*)\)(?P<returns>.*):$\<close>; only the groups the class declares are kept.\<close>

definition match_Func :: "string \<Rightarrow> (string \<times> string) option" where
  "match_Func line =
     (if \<not> startswith line ''func '' \<or> \<not> endswith line '':'' then None
      else
        let r = drop 5 (butlast line);
            nm = takeWhile is_word r; r1 = dropWhile is_word r
        in if nm = [] \<or> \<not> startswith r1 ''('' then None
           else (case split_last '')'' (drop 1 r1) of
                   Some (args, returns) \<Rightarrow> Some (nm, args)
                 | None \<Rightarrow> None))"

text \<open>
  \<^verbatim>\<open>re.findall\<close> of \<^verbatim>\<open>(?P<arg_name>[a-z][a-z_0-9]*): (?P<arg_type>int|bytes)\<close> in
  \<^verbatim>\<open>ArgsList.__init__\<close>: the matches from left to right, a search resuming after a match.
\<close>

definition is_arg_char :: "char \<Rightarrow> bool" where
  "is_arg_char c \<longleftrightarrow> is_lower c \<or> is_digit c \<or> c = CHR ''_''"

definition match_arg :: "string \<Rightarrow> ((string \<times> StackType) \<times> string) option" where
  "match_arg s =
     (let nm = takeWhile is_arg_char s; r = dropWhile is_arg_char s in
      if nm = [] \<or> \<not> is_lower (hd nm) then None
      else if startswith r '': int'' then Some ((nm, T_int), drop 5 r)
      else if startswith r '': bytes'' then Some ((nm, T_bytes), drop 7 r)
      else None)"

lemma startswith_length: "startswith s p \<Longrightarrow> length p \<le> length s"
proof -
  assume "startswith s p"
  then have "length (take (length p) s) = length p" by (simp add: startswith_def)
  then show ?thesis by simp
qed

lemma match_arg_shorter:
  assumes "match_arg s = Some (a, r)"
  shows "length r < length s"
proof -
  let ?d = "dropWhile is_arg_char s"
  have len: "length ?d \<le> length s"
    by (rule length_dropWhile_le)
  from assms have "(startswith ?d '': int'' \<and> r = drop 5 ?d) \<or> (startswith ?d '': bytes'' \<and> r = drop 7 ?d)"
    by (auto simp: match_arg_def Let_def split: if_splits)
  then show ?thesis
  proof
    assume c: "startswith ?d '': int'' \<and> r = drop 5 ?d"
    then have "5 \<le> length ?d" using startswith_length [of ?d "'': int''"] by simp
    with c len show ?thesis by simp
  next
    assume c: "startswith ?d '': bytes'' \<and> r = drop 7 ?d"
    then have "7 \<le> length ?d" using startswith_length [of ?d "'': bytes''"] by simp
    with c len show ?thesis by simp
  qed
qed

function findall_args :: "string \<Rightarrow> (string \<times> StackType) list" where
  "findall_args [] = []"
| "findall_args (c # cs) =
     (case match_arg (c # cs) of
        Some (a, r) \<Rightarrow> a # findall_args r
      | None \<Rightarrow> findall_args cs)"
  by pat_completeness auto
termination
proof (relation "measure length")
  show "wf (measure length)" by simp
next
  fix c cs x2 a r
  assume "match_arg (c # cs) = Some x2" "(a, r) = x2"
  then have "match_arg (c # cs) = Some (a, r)" by simp
  then have "length r < length (c # cs)" by (rule match_arg_shorter)
  then show "(r, c # cs) \<in> measure length" by simp
next
  fix c :: char and cs
  show "(cs, c # cs) \<in> measure length" by simp
qed

text \<open>\<^verbatim>\<open>return ?(?P<args>.*?)?$\<close>; an absent group and the empty string are both false.\<close>

definition match_Return :: "string \<Rightarrow> string option" where
  "match_Return line =
     (if startswith line ''return''
      then (let r = drop 6 line in Some (if startswith r '' '' then drop 1 r else r))
      else None)"

section \<open>Parsing: the constructors\<close>

text \<open>
  A constructor receives its parent node. Of the parent it reads the current scope,
  and, through \<^verbatim>\<open>find_parent\<close>, whether a \<^verbatim>\<open>WhileStatement\<close> (whose \<^verbatim>\<open>end_label\<close> a
  \<^verbatim>\<open>Break\<close> needs), a \<^verbatim>\<open>Func\<close> or an \<^verbatim>\<open>InnerGroup\<close> is among the parent and its ancestors:
  the parent is passed as these four values.
\<close>

record ctx =
  cx_scope :: nat
  cx_loop :: "string option"
  cx_func :: bool
  cx_group :: bool

text \<open>
  The two parsers of the expression module the constructors call:
  \<^verbatim>\<open>GenericExpression.parse\<close> (type \<open>expr_parser\<close>) and \<^verbatim>\<open>Literal.parse\<close>.
\<close>

type_synonym lit_parser = "string \<Rightarrow> exn + literal_value"

text \<open>
  The attribute \<^verbatim>\<open>pattern\<close> of the classes whose constructor matches a line, by class
  name; the text only, since the matching itself is done by the functions \<open>match_\<close>
  above.
\<close>

definition class_pattern :: "string \<Rightarrow> string" where
  \<open>class_pattern cls =
     (case map_of
        [
      (''Assert'',
        ''assert'' @ [CHR 0x5C] @ ''((?P<arg>.*?)(, "(?P<message>.*?)")?'' @ [CHR 0x5C] @ '')$''),
      (''Assignment'',
        ''(?P<names>([a-z_][a-zA-Z0-9_]*,?'' @ [CHR 0x5C] @ ''s*)+) = (?P<expression>.*)$''),
      (''Block'',
        ''block (?P<name>[a-zA-Z_0-9]+):$''),
      (''Break'',
        ''break$''),
      (''BytesDeclaration'',
        ''bytes (?P<name>[a-z][a-zA-Z0-9_]*)( = (?P<expression>.*))?$''),
      (''Comment'',
        ''#'' @ [CHR 0x5C] @ ''s*(?P<comment>.*)$''),
      (''Const'',
        ''const (?P<type>'' @ [CHR 0x5C] @ ''bint'' @ [CHR 0x5C] @ ''b|'' @ [CHR 0x5C] @ ''bbytes'' @ [CHR 0x5C] @ ''b) (?P<name>[A-Z][a-zA-Z0-9_]*) = (?P<expression>.*)$''),
      (''Elif'',
        ''elif ((?P<modifier>not) )?(?P<condition>.*):''),
      (''Exit'',
        ''exit'' @ [CHR 0x5C] @ ''((?P<expression>.*)'' @ [CHR 0x5C] @ '')$''),
      (''ForStatement'',
        ''for (?P<var>[a-z_][a-zA-Z0-9_]*) in (?P<start>[a-zA-Z0-9_]+):(?P<end>[a-zA-Z0-9_]+):$''),
      (''Func'',
        ''func (?P<name>[a-zA-Z_0-9]+)'' @ [CHR 0x5C] @ ''((?P<args>.*)'' @ [CHR 0x5C] @ '')(?P<returns>.*):$''),
      (''FunctionCall'',
        ''(?P<expression>[a-zA-Z_0-9]+'' @ [CHR 0x5C] @ ''(.*'' @ [CHR 0x5C] @ ''))$''),
      (''IfStatement'',
        ''if ((?P<modifier>not) )?(?P<condition>.*):$''),
      (''InnerTxnFieldSetter'',
        ''(?P<field_name>.*?)('' @ [CHR 0x5C] @ ''[(?P<index>'' @ [CHR 0x5C] @ ''d'' @ [CHR 0x5C] @ ''d?)'' @ [CHR 0x5C] @ ''])?: (?P<expression>.*)''),
      (''IntDeclaration'',
        ''int (?P<name>[a-z][a-zA-Z0-9_]*)( = (?P<expression>.*))?$''),
      (''Jump'',
        ''jump (?P<block_name>.*)$''),
      (''Return'',
        ''return ?(?P<args>.*?)?$''),
      (''Switch'',
        ''switch (?P<expression>.*):$''),
      (''SwitchElse'',
        ''else: (?P<block_name>.*)''),
      (''SwitchOption'',
        ''(?P<expression>.*): (?P<block_name>.*)''),
      (''TealVersion'',
        ''#pragma version (?P<version>'' @ [CHR 0x5C] @ ''d+)$''),
      (''WhileStatement'',
        ''while ((?P<modifier>not) )?(?P<condition>.*):$'')
        ] cls of
        Some p \<Rightarrow> p
      | None \<Rightarrow> [])\<close>

text \<open>
  The \<^verbatim>\<open>ParseError\<close> of \<^verbatim>\<open>Node.__init__\<close> for a line its pattern does not match; the
  message holds the pattern, the class name (\<^verbatim>\<open>__repr__\<close> of \<^verbatim>\<open>Node\<close>) and the line.
\<close>

definition no_match :: "string \<Rightarrow> string \<Rightarrow> exn" where
  \<open>no_match cls line =
     ParseError (''Pattern ('' @ class_pattern cls @ '') does not match for '' @ cls
       @ '' for line "'' @ line @ ''"'')\<close>

text \<open>The \<^verbatim>\<open>AttributeError\<close> of \<^verbatim>\<open>None.startswith\<close>.\<close>

definition none_startswith :: exn where
  "none_startswith =
     AttributeError ([CHR 0x27] @ ''NoneType'' @ [CHR 0x27] @ '' object has no attribute ''
       @ [CHR 0x27] @ ''startswith'' @ [CHR 0x27])"

text \<open>\<^verbatim>\<open>Node.new_scope(name)\<close> under the scope \<open>p\<close> of the parent node: the new scope's index.\<close>

definition new_scope :: "string \<Rightarrow> nat \<Rightarrow> state \<Rightarrow> nat \<times> state" where
  "new_scope nm p st =
     (length (scopes st),
      st\<lparr> scopes := scopes st @ [Scope_init nm (Some (p, scopes st ! p)) None] \<rparr>)"

text \<open>
  \<^verbatim>\<open>Block.__init__\<close>: the block is entered into the table of the enclosing scope under
  its name, its label is the qualified name, and it opens a scope of its own.
\<close>

definition Block_init :: "ctx \<Rightarrow> state \<Rightarrow> string \<Rightarrow> exn + ((meta \<times> string \<times> string) \<times> state)" where
  "Block_init cx st line =
     (case match_Block line of
        None \<Rightarrow> Inl (no_match ''Block'' line)
      | Some nm \<Rightarrow>
          let i = cx_scope cx;
              sc = scopes st ! i;
              label = name sc @ (if name sc \<noteq> [] then ''__'' else []) @ nm;
              st1 = st\<lparr> scopes := (scopes st)[i := sc\<lparr> blocks := AList.update nm label (blocks sc) \<rparr>] \<rparr>;
              (j, st2) = new_scope nm i st1
          in Inr ((Meta line (line_no st) j, nm, label), st2))"

text \<open>\<^verbatim>\<open>Func.__init__\<close>, with the arguments \<^verbatim>\<open>ArgsList\<close> finds in the group \<^verbatim>\<open>args\<close>.\<close>

definition Func_init ::
  "ctx \<Rightarrow> state \<Rightarrow> string
     \<Rightarrow> exn + ((meta \<times> string \<times> (string \<times> StackType) list \<times> string) \<times> state)" where
  "Func_init cx st line =
     (case match_Func line of
        None \<Rightarrow> Inl (no_match ''Func'' line)
      | Some (nm, args) \<Rightarrow>
          let i = cx_scope cx;
              sc = scopes st ! i;
              label = name sc @ ''__func__'' @ nm;
              st1 = st\<lparr> scopes := (scopes st)[i := sc\<lparr> scope_functions :=
                        AList.update nm label (scope_functions sc) \<rparr>] \<rparr>;
              (j, st2) = new_scope (''func__'' @ nm) i st1
          in Inr ((Meta line (line_no st) j, nm, findall_args args, label), st2))"

text \<open>
  \<^verbatim>\<open>IfStatement.__init__\<close>, \<^verbatim>\<open>WhileStatement.__init__\<close> and \<^verbatim>\<open>ForStatement.__init__\<close>: the
  node takes the value of the compiler's counter as its \<^verbatim>\<open>conditional_index\<close>,
  increments the counter and builds its labels from the index.
\<close>

definition mint :: "nat \<Rightarrow> string \<Rightarrow> string" where
  "mint idx role = ''l'' @ str_nat idx @ ''_'' @ role"

definition IfStatement_init ::
  "expr_parser \<Rightarrow> ctx \<Rightarrow> state \<Rightarrow> string
     \<Rightarrow> exn + ((meta \<times> string option \<times> expression \<times> nat \<times> string) \<times> state)" where
  "IfStatement_init P cx st line =
     (case match_conditional ''if '' line of
        None \<Rightarrow> Inl (no_match ''IfStatement'' line)
      | Some (md, cond) \<Rightarrow>
          bind (P cond) (\<lambda>e.
            Inr ((Meta line (line_no st) (cx_scope cx), md, e, conditional_count st,
                  mint (conditional_count st) ''end''),
                 st\<lparr> conditional_count := conditional_count st + 1 \<rparr>)))"

definition WhileStatement_init ::
  "expr_parser \<Rightarrow> ctx \<Rightarrow> state \<Rightarrow> string
     \<Rightarrow> exn + ((meta \<times> string option \<times> expression \<times> string \<times> string) \<times> state)" where
  "WhileStatement_init P cx st line =
     (case match_conditional ''while '' line of
        None \<Rightarrow> Inl (no_match ''WhileStatement'' line)
      | Some (md, cond) \<Rightarrow>
          bind (P cond) (\<lambda>e.
            Inr ((Meta line (line_no st) (cx_scope cx), md, e,
                  mint (conditional_count st) ''while'', mint (conditional_count st) ''end''),
                 st\<lparr> conditional_count := conditional_count st + 1 \<rparr>)))"

definition ForStatement_init ::
  "expr_parser \<Rightarrow> ctx \<Rightarrow> state \<Rightarrow> string
     \<Rightarrow> exn + ((meta \<times> string \<times> expression \<times> expression \<times> string \<times> string) \<times> state)" where
  "ForStatement_init P cx st line =
     (case match_ForStatement line of
        None \<Rightarrow> Inl (no_match ''ForStatement'' line)
      | Some (var, start, end) \<Rightarrow>
          bind (P start) (\<lambda>s.
            bind (P end) (\<lambda>e.
              Inr ((Meta line (line_no st) (cx_scope cx), var, s, e,
                    mint (conditional_count st) ''for'', mint (conditional_count st) ''end''),
                   st\<lparr> conditional_count := conditional_count st + 1 \<rparr>))))"

definition Elif_init ::
  "expr_parser \<Rightarrow> ctx \<Rightarrow> state \<Rightarrow> string \<Rightarrow> exn + (meta \<times> string option \<times> expression)" where
  "Elif_init P cx st line =
     (case match_Elif line of
        None \<Rightarrow> Inl (no_match ''Elif'' line)
      | Some (md, cond) \<Rightarrow>
          bind (P cond) (\<lambda>e. Inr (Meta line (line_no st) (cx_scope cx), md, e)))"

section \<open>Parsing: statements of one line\<close>

text \<open>The test \<^verbatim>\<open>re.match(r"[a-zA-Z_0-9]+\(.*\)", line)\<close> of \<^verbatim>\<open>LineStatement.consume\<close>.\<close>

definition call_shape :: "string \<Rightarrow> bool" where
  "call_shape line \<longleftrightarrow>
     takeWhile is_word line \<noteq> [] \<and> startswith (dropWhile is_word line) ''(''
       \<and> CHR '')'' \<in> set (dropWhile is_word line)"

text \<open>\<^verbatim>\<open>LineStatement.consume\<close>, with the constructor of the class it selects.\<close>

definition LineStatement_consume ::
  "expr_parser \<Rightarrow> lit_parser \<Rightarrow> ctx \<Rightarrow> state \<Rightarrow> exn + (Node \<times> state)" where
  \<open>LineStatement_consume P PL cx st0 =
     (case consume_line st0 of
        (None, st) \<Rightarrow> Inl none_startswith
      | (Some line, st) \<Rightarrow>
          let m = Meta line (line_no st) (cx_scope cx) in
          if startswith line ''#pragma'' then
            (if line_no st \<noteq> 1
             then Inl (ParseError
                    (''Teal version must be specified in the first line of the program: "''
                      @ line @ ''" at '' @ str_nat (line_no st) @ ''.''))
             else (case match_TealVersion line of
                     None \<Rightarrow> Inl (no_match ''TealVersion'' line)
                   | Some v \<Rightarrow> Inr (TealVersion m v, st)))
          else if startswith line ''#'' then
            (case match_Comment line of
               None \<Rightarrow> Inl (no_match ''Comment'' line)
             | Some c \<Rightarrow> Inr (Comment m c, st))
          else if line = [] then Inr (Blank m, st)
          else if startswith line ''const '' then
            (case match_Const line of
               None \<Rightarrow> Inl (no_match ''Const'' line)
             | Some (t, nm, text) \<Rightarrow> bind (PL text) (\<lambda>v. Inr (Const m t nm v, st)))
          else if startswith line ''int '' then
            (case match_Declaration ''int '' line of
               None \<Rightarrow> Inl (no_match ''IntDeclaration'' line)
             | Some (nm, None) \<Rightarrow> Inr (IntDeclaration m nm None, st)
             | Some (nm, Some text) \<Rightarrow> bind (P text) (\<lambda>e. Inr (IntDeclaration m nm (Some e), st)))
          else if startswith line ''bytes '' then
            (case match_Declaration ''bytes '' line of
               None \<Rightarrow> Inl (no_match ''BytesDeclaration'' line)
             | Some (nm, None) \<Rightarrow> Inr (BytesDeclaration m nm None, st)
             | Some (nm, Some text) \<Rightarrow> bind (P text) (\<lambda>e. Inr (BytesDeclaration m nm (Some e), st)))
          else if startswith line ''jump '' then
            (case match_Jump line of
               None \<Rightarrow> Inl (no_match ''Jump'' line)
             | Some b \<Rightarrow> Inr (Jump m b, st))
          else if startswith line ''return'' then
            (case match_Return line of
               None \<Rightarrow> Inl (no_match ''Return'' line)
             | Some args \<Rightarrow>
                 if \<not> cx_func cx
                 then Inl (ParseError (''"return" should only be used in a function! Line ''
                             @ str_nat (line_no st)))
                 else Inr (Return m args, st))
          else if contains '' = '' line then
            (case match_Assignment line of
               None \<Rightarrow> Inl (no_match ''Assignment'' line)
             | Some (names, text) \<Rightarrow> bind (P text) (\<lambda>e. Inr (Assignment m names e, st)))
          else if startswith line ''break'' then
            (if \<not> match_Break line then Inl (no_match ''Break'' line)
             else (case cx_loop cx of
                     None \<Rightarrow> Inl (ParseError (''"break" should only be used in a while loop! Line ''
                                      @ str_nat (line_no st)))
                   | Some end_label \<Rightarrow> Inr (Break m end_label, st)))
          else if startswith line ''exit('' then
            (case match_Exit line of
               None \<Rightarrow> Inl (no_match ''Exit'' line)
             | Some text \<Rightarrow> bind (P text) (\<lambda>e. Inr (Exit m e, st)))
          else if startswith line ''assert('' then
            (case match_Assert line of
               None \<Rightarrow> Inl (no_match ''Assert'' line)
             | Some (text, msg) \<Rightarrow> bind (P text) (\<lambda>e. Inr (Assert m e msg, st)))
          else if call_shape line then
            (case match_FunctionCall line of
               None \<Rightarrow> Inl (no_match ''FunctionCall'' line)
             | Some text \<Rightarrow> bind (P text) (\<lambda>e. Inr (FunctionCall m e, st)))
          else Inl (ParseError (''Unexpected line statement: "'' @ line @ ''" at ''
                      @ str_nat (line_no st) @ ''.'')))\<close>

section \<open>Parsing: blocks whose children are not statements\<close>

text \<open>The number of lines the cursor has not consumed; every loop below consumes one per turn.\<close>

definition remaining :: "state \<Rightarrow> nat" where
  "remaining st = length (source_lines st) - line_no st"

lemma remaining_consume_line:
  "peek st = Some l \<Longrightarrow> remaining (snd (consume_line st)) < remaining st"
  by (auto simp: peek_def consume_line_def remaining_def split: if_splits)

lemma consume_line_peek: "fst (consume_line st) = peek st"
  by (simp add: peek_def consume_line_def)

text \<open>The loop of \<^verbatim>\<open>Switch.consume\<close>, with \<^verbatim>\<open>add_option\<close> and \<^verbatim>\<open>add_else\<close>.\<close>

function switch_loop ::
  "expr_parser \<Rightarrow> ctx \<Rightarrow> SwitchOption list \<Rightarrow> SwitchElse option \<Rightarrow> state
     \<Rightarrow> exn + ((SwitchOption list \<times> SwitchElse option) \<times> state)" where
  "switch_loop P cx options else_opt st =
     (case peek st of
        None \<Rightarrow> Inl none_startswith
      | Some line \<Rightarrow>
          if line = ''end'' then Inr ((options, else_opt), snd (consume_line st))
          else if startswith line ''else:'' then
            (case match_SwitchElse line of
               None \<Rightarrow> Inl (no_match ''SwitchElse'' line)
             | Some b \<Rightarrow>
                 switch_loop P cx options
                   (Some (SwitchElse (Meta line (line_no (snd (consume_line st))) (cx_scope cx)) b))
                   (snd (consume_line st)))
          else
            (case match_SwitchOption line of
               None \<Rightarrow> Inl (no_match ''SwitchOption'' line)
             | Some (text, b) \<Rightarrow>
                 bind (P text) (\<lambda>e.
                   switch_loop P cx
                     (options @ [SwitchOption (Meta line (line_no (snd (consume_line st))) (cx_scope cx)) e b])
                     else_opt (snd (consume_line st)))))"
  by pat_completeness auto
termination
  by (relation "measure (\<lambda>(P, cx, options, else_opt, st). remaining st)")
     (auto simp: remaining_consume_line)

declare switch_loop.simps [simp del]

definition Switch_consume :: "expr_parser \<Rightarrow> ctx \<Rightarrow> state \<Rightarrow> exn + (Node \<times> state)" where
  "Switch_consume P cx st0 =
     (case consume_line st0 of
        (None, st) \<Rightarrow> Inl (TypeError ''expected string or bytes-like object'')
      | (Some line, st) \<Rightarrow>
          (case match_Switch line of
             None \<Rightarrow> Inl (no_match ''Switch'' line)
           | Some text \<Rightarrow>
               bind (P text) (\<lambda>e.
                 bind (switch_loop P cx [] None st) (\<lambda>((options, else_opt), st1).
                   Inr (Switch (Meta line (line_no st) (cx_scope cx)) e options else_opt, st1)))))"

text \<open>
  The loop of \<^verbatim>\<open>Teal.consume\<close>. At the end of the input \<^verbatim>\<open>TealLine.consume\<close> passes
  \<^verbatim>\<open>None\<close> to \<^verbatim>\<open>re.match\<close>.
\<close>

function teal_loop :: "ctx \<Rightarrow> Node list \<Rightarrow> state \<Rightarrow> exn + (Node list \<times> state)" where
  "teal_loop cx kids st =
     (case peek st of
        None \<Rightarrow> Inl (TypeError ''expected string or bytes-like object'')
      | Some line \<Rightarrow>
          if line = ''end'' then Inr (kids, snd (consume_line st))
          else teal_loop cx
                 (kids @ [TealLine (Meta line (line_no (snd (consume_line st))) (cx_scope cx))])
                 (snd (consume_line st)))"
  by pat_completeness auto
termination
  by (relation "measure (\<lambda>(cx, kids, st). remaining st)") (auto simp: remaining_consume_line)

declare teal_loop.simps [simp del]

definition Teal_consume :: "ctx \<Rightarrow> state \<Rightarrow> exn + (Node \<times> state)" where
  "Teal_consume cx st0 =
     (case consume_line st0 of
        (None, st) \<Rightarrow> Inl (TypeError ''expected string or bytes-like object'')
      | (Some line, st) \<Rightarrow>
          bind (teal_loop cx [] st) (\<lambda>(kids, st1).
            Inr (Teal (Meta line (line_no st) (cx_scope cx)) kids, st1)))"

text \<open>The constructor of \<^verbatim>\<open>InnerTxnFieldSetter\<close>, on a line the cursor has consumed.\<close>

definition InnerTxnFieldSetter_init ::
  "expr_parser \<Rightarrow> ctx \<Rightarrow> state \<Rightarrow> string \<Rightarrow> exn + InnerTxnFieldSetter" where
  "InnerTxnFieldSetter_init P cx st line =
     (case match_InnerTxnFieldSetter line of
        None \<Rightarrow> Inl (no_match ''InnerTxnFieldSetter'' line)
      | Some (nm, idx, text) \<Rightarrow>
          bind (P text) (\<lambda>e.
            Inr (InnerTxnFieldSetter (Meta line (line_no st) (cx_scope cx)) nm idx e)))"

text \<open>The loop of \<^verbatim>\<open>InnerTxn.consume\<close>.\<close>

function inner_txn_loop ::
  "expr_parser \<Rightarrow> ctx \<Rightarrow> InnerTxnFieldSetter list \<Rightarrow> state
     \<Rightarrow> exn + (InnerTxnFieldSetter list \<times> state)" where
  "inner_txn_loop P cx kids st =
     (case peek st of
        None \<Rightarrow> Inl none_startswith
      | Some line \<Rightarrow>
          if line = ''end'' then Inr (kids, snd (consume_line st))
          else if startswith line ''#'' then inner_txn_loop P cx kids (snd (consume_line st))
          else bind (InnerTxnFieldSetter_init P cx (snd (consume_line st)) line) (\<lambda>f.
                 inner_txn_loop P cx (kids @ [f]) (snd (consume_line st))))"
  by pat_completeness auto
termination
  by (relation "measure (\<lambda>(P, cx, kids, st). remaining st)") (auto simp: remaining_consume_line)

declare inner_txn_loop.simps [simp del]

text \<open>
  \<^verbatim>\<open>InnerTxn.consume\<close>: a field block outside a group is returned inside a group made
  for it, whose line is empty.
\<close>

definition InnerTxn_consume :: "expr_parser \<Rightarrow> ctx \<Rightarrow> state \<Rightarrow> exn + (Node \<times> state)" where
  "InnerTxn_consume P cx st0 =
     (case consume_line st0 of
        (None, st) \<Rightarrow> Inl (TypeError ''expected string or bytes-like object'')
      | (Some line, st) \<Rightarrow>
          bind (inner_txn_loop P cx [] st) (\<lambda>(kids, st1).
            let node = InnerTxn (Meta line (line_no st) (cx_scope cx)) kids in
            if \<not> cx_group cx
            then Inr (InnerGroup (Meta [] (line_no st1) (cx_scope cx)) [node], st1)
            else Inr (node, st1)))"

section \<open>Parsing: statements with child statements\<close>

text \<open>
  The methods \<^verbatim>\<open>consume\<close> of the statements that hold statements call each other, and
  the loop of \<^verbatim>\<open>IfStatement.consume\<close> can turn without consuming a line. They take a
  bound on the number of calls; \<open>None\<close> says that the bound was reached. \<open>pbind\<close>
  sequences two such steps.
\<close>

definition pbind :: "(exn + 'a) option \<Rightarrow> ('a \<Rightarrow> (exn + 'b) option) \<Rightarrow> (exn + 'b) option" where
  "pbind m f = (case m of None \<Rightarrow> None | Some (Inl e) \<Rightarrow> Some (Inl e) | Some (Inr x) \<Rightarrow> f x)"

lemma pbind_simps [simp]:
  "pbind None f = None"
  "pbind (Some (Inl e)) f = Some (Inl e)"
  "pbind (Some (Inr x)) f = f x"
  by (simp_all add: pbind_def)

text \<open>
  The loops that collect child statements differ in the test that ends them and in
  whether the line that ends them is consumed:
  \<^item> \<open>StopEnd\<close>: \<^verbatim>\<open>peek() == "end"\<close>, consumed (\<^verbatim>\<open>Block\<close>, \<^verbatim>\<open>WhileStatement\<close>,
    \<^verbatim>\<open>ForStatement\<close>, \<^verbatim>\<open>Func\<close>);
  \<^item> \<open>StopEndPrefix\<close>: \<^verbatim>\<open>peek().startswith("end")\<close>, consumed (\<^verbatim>\<open>InnerGroup\<close>);
  \<^item> \<open>StopClause\<close>: \<^verbatim>\<open>peek().startswith(("end", "elif", "else:"))\<close>, left (\<^verbatim>\<open>IfThen\<close>,
    \<^verbatim>\<open>Elif\<close>);
  \<^item> \<open>StopElseBody\<close>: \<^verbatim>\<open>peek().startswith(("end"))\<close>, left (\<^verbatim>\<open>Else\<close>);
  \<^item> \<open>StopEof\<close>: \<^verbatim>\<open>peek() is None\<close> (\<^verbatim>\<open>Program\<close>).
\<close>

datatype stop_kind = StopEnd | StopEndPrefix | StopClause | StopElseBody | StopEof

fun stop_test :: "stop_kind \<Rightarrow> string \<Rightarrow> bool" where
  "stop_test StopEnd line = (line = ''end'')"
| "stop_test StopEndPrefix line = startswith line ''end''"
| "stop_test StopClause line =
     (startswith line ''end'' \<or> startswith line ''elif'' \<or> startswith line ''else:'')"
| "stop_test StopElseBody line = startswith line ''end''"
| "stop_test StopEof line = False"

fun consumes_end :: "stop_kind \<Rightarrow> bool" where
  "consumes_end StopEnd = True"
| "consumes_end StopEndPrefix = True"
| "consumes_end k = False"

fun is_Block :: "Node \<Rightarrow> bool" where
  "is_Block (Block m nm label kids) = True"
| "is_Block n = False"

fun is_Return :: "Node \<Rightarrow> bool" where
  "is_Return (Return m args) = True"
| "is_Return n = False"

text \<open>
  The \<^verbatim>\<open>ParseError\<close> of \<^verbatim>\<open>Node.add_child\<close>. Where \<^verbatim>\<open>possible_child_nodes\<close> is
  \<^verbatim>\<open>[InlineStatement]\<close>, a \<^verbatim>\<open>Block\<close> is the one statement that is refused.
\<close>

definition unexpected_child :: "string \<Rightarrow> nat \<Rightarrow> exn" where
  "unexpected_child cls ln =
     ParseError (''Unexpected child node Block in '' @ cls @ '' at line '' @ str_nat ln @ ''!'')"

text \<open>The test after the loop of \<^verbatim>\<open>Func.consume\<close>.\<close>

definition Func_close :: "Node list \<Rightarrow> state \<Rightarrow> exn option" where
  "Func_close kids st =
     (if kids = [] then Some (IndexError ''list index out of range'')
      else if \<not> is_Return (last kids)
      then Some (ParseError (''func must end with a return statement at line ''
                   @ str_nat (line_no st) @ ''!''))
      else None)"

text \<open>
  \<^verbatim>\<open>Statement.consume\<close> selects a class by the start of the next line and calls its
  \<^verbatim>\<open>consume\<close>. For a class that holds statements, \<^verbatim>\<open>consume\<close> consumes the line, runs
  the constructor, and then loops over the children. \<open>Statement_open\<close> is the part up
  to the loop: it gives the finished node for the classes without such a loop, and
  otherwise the constructed header together with the kind of loop, the check on the
  children, the parent the children get, and the state.
\<close>

datatype header =
    HBlock meta string string
  | HFunc meta string "(string \<times> StackType) list" string
  | HIf meta "string option" expression nat string meta
  | HWhile meta "string option" expression string string
  | HFor meta string expression expression string string
  | HGroup meta

datatype opened =
    Done "exn + (Node \<times> state)"
  | Opened header stop_kind "(string \<times> nat) option" ctx state

definition Statement_open :: "expr_parser \<Rightarrow> lit_parser \<Rightarrow> ctx \<Rightarrow> state \<Rightarrow> opened" where
  "Statement_open P PL cx st =
     (case peek st of
        None \<Rightarrow> Done (Inl none_startswith)
      | Some line \<Rightarrow>
          if startswith line ''block '' then
            (case Block_init cx (snd (consume_line st)) line of
               Inl e \<Rightarrow> Done (Inl e)
             | Inr ((m, nm, label), st1) \<Rightarrow>
                 Opened (HBlock m nm label) StopEnd None (cx\<lparr> cx_scope := node_scope m \<rparr>) st1)
          else if startswith line ''switch '' then Done (Switch_consume P cx st)
          else if startswith line ''func '' then
            (case Func_init cx (snd (consume_line st)) line of
               Inl e \<Rightarrow> Done (Inl e)
             | Inr ((m, nm, args, label), st1) \<Rightarrow>
                 Opened (HFunc m nm args label) StopEnd (Some (''Func'', node_line_no m))
                   (cx\<lparr> cx_scope := node_scope m, cx_func := True \<rparr>) st1)
          else if startswith line ''if '' then
            (case IfStatement_init P cx (snd (consume_line st)) line of
               Inl e \<Rightarrow> Done (Inl e)
             | Inr ((m, md, cond, idx, end_label), st1) \<Rightarrow>
                 Opened (HIf m md cond idx end_label (Meta [] (line_no st1) (cx_scope cx)))
                   StopClause (Some (''IfThen'', line_no st1)) cx st1)
          else if startswith line ''while '' then
            (case WhileStatement_init P cx (snd (consume_line st)) line of
               Inl e \<Rightarrow> Done (Inl e)
             | Inr ((m, md, cond, start_label, end_label), st1) \<Rightarrow>
                 Opened (HWhile m md cond start_label end_label) StopEnd
                   (Some (''WhileStatement'', node_line_no m))
                   (cx\<lparr> cx_loop := Some end_label \<rparr>) st1)
          else if startswith line ''for '' then
            (case ForStatement_init P cx (snd (consume_line st)) line of
               Inl e \<Rightarrow> Done (Inl e)
             | Inr ((m, var, start, end, start_label, end_label), st1) \<Rightarrow>
                 Opened (HFor m var start end start_label end_label) StopEnd
                   (Some (''ForStatement'', node_line_no m)) cx st1)
          else if startswith line ''teal:'' then Done (Teal_consume cx st)
          else if startswith line ''inner_group:'' then
            Opened (HGroup (Meta line (line_no (snd (consume_line st))) (cx_scope cx)))
              StopEndPrefix None (cx\<lparr> cx_group := True \<rparr>) (snd (consume_line st))
          else if startswith line ''inner_txn:'' then Done (InnerTxn_consume P cx st)
          else Done (LineStatement_consume P PL cx st))"

text \<open>
  The part of \<^verbatim>\<open>consume\<close> after the loop over the children: the node, and for \<^verbatim>\<open>Func\<close>
  the test that the last child is a \<^verbatim>\<open>return\<close>.
\<close>

fun Statement_close ::
  "header \<Rightarrow> Node list \<Rightarrow> Elif list \<Rightarrow> Else option \<Rightarrow> state \<Rightarrow> exn + (Node \<times> state)" where
  "Statement_close (HBlock m nm label) kids elifs else_opt st = Inr (Block m nm label kids, st)"
| "Statement_close (HFunc m nm args label) kids elifs else_opt st =
     (case Func_close kids st of
        Some e \<Rightarrow> Inl e
      | None \<Rightarrow> Inr (Func m nm args label kids, st))"
| "Statement_close (HIf m md cond idx end_label mt) kids elifs else_opt st =
     Inr (IfStatement m md cond end_label (IfThen mt kids) elifs else_opt, st)"
| "Statement_close (HWhile m md cond start_label end_label) kids elifs else_opt st =
     Inr (WhileStatement m md cond start_label end_label kids, st)"
| "Statement_close (HFor m var start end start_label end_label) kids elifs else_opt st =
     Inr (ForStatement m var start end start_label end_label kids, st)"
| "Statement_close (HGroup m) kids elifs else_opt st = Inr (InnerGroup m kids, st)"

text \<open>The counter value of an \<^verbatim>\<open>if\<close> header; only that header has clauses.\<close>

fun if_index :: "header \<Rightarrow> nat option" where
  "if_index (HIf m md cond idx end_label mt) = Some idx"
| "if_index h = None"

text \<open>
  One turn of the loop of \<^verbatim>\<open>IfStatement.consume\<close>, up to the loop over the children of
  the clause: the loop ends at \<^verbatim>\<open>end\<close>; \<^verbatim>\<open>Elif.consume\<close> and \<^verbatim>\<open>Else.consume\<close> consume their
  line and construct the clause; on any other line the turn does nothing, and the
  loop turns again on the same line.
\<close>

datatype if_turn =
    TurnRaise exn
  | TurnEnd state
  | TurnElif meta "string option" expression state
  | TurnElse meta state
  | TurnNothing

definition if_step :: "expr_parser \<Rightarrow> ctx \<Rightarrow> state \<Rightarrow> if_turn" where
  "if_step P cx st =
     (case peek st of
        None \<Rightarrow> TurnRaise none_startswith
      | Some line \<Rightarrow>
          if line = ''end'' then TurnEnd (snd (consume_line st))
          else if startswith line ''elif '' then
            (case Elif_init P cx (snd (consume_line st)) line of
               Inl e \<Rightarrow> TurnRaise e
             | Inr (m, md, cond) \<Rightarrow> TurnElif m md cond (snd (consume_line st)))
          else if startswith line ''else:'' then
            TurnElse (Meta line (line_no (snd (consume_line st))) (cx_scope cx))
              (snd (consume_line st))
          else TurnNothing)"

text \<open>One turn of a loop over child statements, before the child is consumed.\<close>

datatype child_turn = ChildRaise exn | ChildStop state | ChildNext

definition child_step :: "stop_kind \<Rightarrow> state \<Rightarrow> child_turn" where
  "child_step stop st =
     (case peek st of
        None \<Rightarrow> if stop = StopEof then ChildStop st else ChildRaise none_startswith
      | Some line \<Rightarrow>
          if stop_test stop line
          then ChildStop (if consumes_end stop then snd (consume_line st) else st)
          else ChildNext)"

text \<open>\<^verbatim>\<open>Node.add_child\<close> on a consumed statement.\<close>

definition add_child :: "(string \<times> nat) option \<Rightarrow> Node \<Rightarrow> exn option" where
  "add_child inline node =
     (case inline of
        Some (cls, ln) \<Rightarrow> if is_Block node then Some (unexpected_child cls ln) else None
      | None \<Rightarrow> None)"

text \<open>
  The recursion: \<open>Statement_consume\<close> is \<^verbatim>\<open>Statement.consume\<close>, \<open>children_loop\<close> the loop
  over the children of a node, \<open>if_loop\<close> the loop of \<^verbatim>\<open>IfStatement.consume\<close> with
  \<^verbatim>\<open>add_elif\<close> and \<^verbatim>\<open>add_else\<close>.
\<close>

fun Statement_consume ::
    "nat \<Rightarrow> expr_parser \<Rightarrow> lit_parser \<Rightarrow> ctx \<Rightarrow> state \<Rightarrow> (exn + (Node \<times> state)) option"
  and children_loop ::
    "nat \<Rightarrow> expr_parser \<Rightarrow> lit_parser \<Rightarrow> stop_kind \<Rightarrow> (string \<times> nat) option \<Rightarrow> ctx
       \<Rightarrow> Node list \<Rightarrow> state \<Rightarrow> (exn + (Node list \<times> state)) option"
  and if_loop ::
    "nat \<Rightarrow> expr_parser \<Rightarrow> lit_parser \<Rightarrow> ctx \<Rightarrow> nat \<Rightarrow> Elif list \<Rightarrow> Else option \<Rightarrow> state
       \<Rightarrow> (exn + ((Elif list \<times> Else option) \<times> state)) option" where
  "Statement_consume 0 P PL cx st = None"
| "Statement_consume (Suc n) P PL cx st =
     (case Statement_open P PL cx st of
        Done r \<Rightarrow> Some r
      | Opened h stop inline cx1 st1 \<Rightarrow>
          pbind (children_loop n P PL stop inline cx1 [] st1) (\<lambda>(kids, st2).
            case if_index h of
              None \<Rightarrow> Some (Statement_close h kids [] None st2)
            | Some idx \<Rightarrow>
                pbind (if_loop n P PL cx idx [] None st2) (\<lambda>((elifs, else_opt), st3).
                  Some (Statement_close h kids elifs else_opt st3))))"
| "children_loop 0 P PL stop inline cx kids st = None"
| "children_loop (Suc n) P PL stop inline cx kids st =
     (case child_step stop st of
        ChildRaise e \<Rightarrow> Some (Inl e)
      | ChildStop st1 \<Rightarrow> Some (Inr (kids, st1))
      | ChildNext \<Rightarrow>
          pbind (Statement_consume n P PL cx st) (\<lambda>(node, st1).
            case add_child inline node of
              Some e \<Rightarrow> Some (Inl e)
            | None \<Rightarrow> children_loop n P PL stop inline cx (kids @ [node]) st1))"
| "if_loop 0 P PL cx idx elifs else_opt st = None"
| "if_loop (Suc n) P PL cx idx elifs else_opt st =
     (case if_step P cx st of
        TurnRaise e \<Rightarrow> Some (Inl e)
      | TurnEnd st1 \<Rightarrow> Some (Inr ((elifs, else_opt), st1))
      | TurnElif m md cond st1 \<Rightarrow>
          pbind (children_loop n P PL StopClause (Some (''Elif'', node_line_no m)) cx [] st1)
            (\<lambda>(kids, st2).
               if_loop n P PL cx idx
                 (elifs @ [Elif m md cond (mint idx (''elif_'' @ str_nat (length elifs))) kids])
                 else_opt st2)
      | TurnElse m st1 \<Rightarrow>
          pbind (children_loop n P PL StopElseBody (Some (''Else'', node_line_no m)) cx [] st1)
            (\<lambda>(kids, st2).
               if_loop n P PL cx idx elifs (Some (Else m (mint idx ''else'') kids)) st2)
      | TurnNothing \<Rightarrow> if_loop n P PL cx idx elifs else_opt st)"

section \<open>The two passes and the driver\<close>

text \<open>The state \<^verbatim>\<open>TealishCompiler(source_lines)\<close> starts from; no scope exists yet.\<close>

definition state_init :: "string list \<Rightarrow> state" where
  "state_init src =
     \<lparr> source_lines = src, output_lines = [], source_map = [], current_output_line = 1,
       level = 0, line_no = 0, conditional_count = 0, error_messages = [],
       max_slot = 0, scopes = [] \<rparr>"

text \<open>
  \<^verbatim>\<open>TealishCompiler.parse\<close>, that is \<^verbatim>\<open>Program.consume(self, None)\<close>: the root node opens
  the scope without a parent and collects statements up to the end of the input.
\<close>

definition parse ::
  "nat \<Rightarrow> expr_parser \<Rightarrow> lit_parser \<Rightarrow> state \<Rightarrow> (exn + (Node \<times> state)) option" where
  "parse n P PL st =
     (let j = length (scopes st);
          st1 = st\<lparr> scopes := scopes st @ [Scope_init [] None None] \<rparr>
      in pbind (children_loop n P PL StopEof None
                  \<lparr> cx_scope = j, cx_loop = None, cx_func = False, cx_group = False \<rparr> [] st1)
           (\<lambda>(kids, st2). Some (Inr (Program (Meta [] (line_no st) j) kids, st2))))"

text \<open>
  What a call of \<^verbatim>\<open>compile_program\<close> ends in: the three values it returns,
  \<^verbatim>\<open>sys.exit\<close> with a status after the message was printed, or an exception that leaves
  the function.
\<close>

datatype outcome =
    Returned "string list" "string list" "(nat, nat) dict"
  | SysExit string nat
  | Raised exn

text \<open>
  \<^verbatim>\<open>compile_program(source)\<close>, with \<^verbatim>\<open>debug\<close> false. The first handler catches
  \<^verbatim>\<open>ParseError\<close> from \<^verbatim>\<open>parse\<close> and exits; any other exception is raised again. The
  second handler catches \<^verbatim>\<open>CompileError\<close> from \<^verbatim>\<open>compile\<close> and exits. \<open>minify\<close> is
  \<^verbatim>\<open>minify_teal\<close> of the module \<^verbatim>\<open>utils\<close>, which is not among the sources.
\<close>

definition compile_program ::
  "nat \<Rightarrow> expr_parser \<Rightarrow> lit_parser \<Rightarrow> (string list \<Rightarrow> string list) \<Rightarrow> string
     \<Rightarrow> outcome option" where
  "compile_program n P PL minify source =
     (case parse n P PL (state_init (split_on CHR 0x0A source)) of
        None \<Rightarrow> None
      | Some (Inl (ParseError msg)) \<Rightarrow> Some (SysExit msg 1)
      | Some (Inl e) \<Rightarrow> Some (Raised e)
      | Some (Inr (root, st1)) \<Rightarrow>
          (case compile P root st1 of
             Inl (CompileError msg) \<Rightarrow> Some (SysExit msg 1)
           | Inl e \<Rightarrow> Some (Raised e)
           | Inr st2 \<Rightarrow>
               let teal = output_lines st2 @ [[]] in
               Some (Returned teal (minify teal) (source_map st2))))"

section \<open>The emitted code, as the specification words it\<close>

text \<open>
  The lines of a \<^verbatim>\<open>switch\<close>, stated without the compiler: for each option in source
  order the code of the subject, the code of the option's value, the comparison and
  the branch to the label of the named block; then the branch to the block of the
  \<^verbatim>\<open>else\<close> clause, or the error opcode when there is none.
\<close>

fun option_code :: "Scope list \<Rightarrow> nat \<Rightarrow> string list \<Rightarrow> SwitchOption list \<Rightarrow> exn + string list" where
  "option_code S i subject [] = Inr []"
| "option_code S i subject (SwitchOption om e block_name # rest) =
     bind (process e (get_scope S i)) (\<lambda>(t, teal).
       case get_block S i block_name of
         None \<Rightarrow> Inl no_label
       | Some lbl \<Rightarrow>
           bind (option_code S i subject rest) (\<lambda>r.
             Inr (subject @ teal @ [''=='', ''bnz '' @ lbl] @ r)))"

definition switch_code ::
  "Scope list \<Rightarrow> nat \<Rightarrow> string \<Rightarrow> expression \<Rightarrow> SwitchOption list \<Rightarrow> SwitchElse option
     \<Rightarrow> exn + string list" where
  "switch_code S i line e options else_opt =
     bind (process e (get_scope S i)) (\<lambda>(t, subject).
       bind (option_code S i subject options) (\<lambda>body.
         case else_opt of
           Some (SwitchElse em block_name) \<Rightarrow>
             (case get_block S i block_name of
                None \<Rightarrow> Inl no_label
              | Some lbl \<Rightarrow> Inr ((''// '' @ line) # body @ [''b '' @ lbl @ '' // else'']))
         | None \<Rightarrow> Inr ((''// '' @ line) # body @ [''err // unexpected value''])))"

section \<open>Expressions for concrete runs\<close>

text \<open>
  Modelled from the spec: the expression module is not among the sources. A concrete
  run needs a parser for the expressions of its program. The integer literal is an
  expression that resolves in every scope, has the type \<^verbatim>\<open>int\<close> and emits the one line
  that pushes its value; \<open>parse_Integer\<close> reads a string of digits as such a literal
  and refuses every other text, and \<open>parse_IntValue\<close> does the same for the literal of
  a constant.
\<close>

definition Integer :: "nat \<Rightarrow> expression" where
  "Integer n = Expression (\<lambda>sv. Inr (Single T_int, [''pushint '' @ str_nat n]))"

definition parse_Integer :: expr_parser where
  "parse_Integer s =
     (if s \<noteq> [] \<and> list_all is_digit s then Inr (Integer (py_int s))
      else Inl (Exception (''Cannot parse '' @ s)))"

definition parse_IntValue :: lit_parser where
  "parse_IntValue s =
     (if s \<noteq> [] \<and> list_all is_digit s then Inr (IntValue (int (py_int s)))
      else Inl (Exception (''Cannot parse '' @ s)))"

section \<open>Notions of the claims about slots\<close>



definition subroutine_scope :: "Scope list \<Rightarrow> nat \<Rightarrow> bool" where
  "subroutine_scope S i \<longleftrightarrow> contains ''func__'' (name (S ! i))"

definition tbl_map :: "(Scope \<Rightarrow> ('k, 'v) dict) \<Rightarrow> Scope list \<Rightarrow> nat list \<Rightarrow> ('k \<rightharpoonup> 'v)" where
  "tbl_map tbl S js = foldl (\<lambda>m j. m ++ map_of (rev (tbl (S ! j)))) Map.empty js"

subsection \<open>The fields of an inner transaction\<close>

text \<open>
  The order of the claim about \<^verbatim>\<open>inner_txn\<close>: the fields without an index in source order,
  then the indexed fields grouped by field name, the names in the order of their first
  appearance and every group in source order. \<open>contiguous\<close> says that each indexed
  field carries the number of fields of its name seen before it, so that the indices
  of every name are 0, 1, 2, ... in source order. \<open>buffer\<close> is the dictionary
  \<^verbatim>\<open>array_fields\<close> after the first loop, and \<open>cnt_of\<close> the length of the list it holds
  for a name.
\<close>

definition indexed :: "InnerTxnFieldSetter list \<Rightarrow> InnerTxnFieldSetter list" where
  "indexed fs = filter (\<lambda>f. index f \<noteq> None) fs"

definition scalars :: "InnerTxnFieldSetter list \<Rightarrow> InnerTxnFieldSetter list" where
  "scalars fs = filter (\<lambda>f. index f = None) fs"

definition appearance_order :: "'a list \<Rightarrow> 'a list" where
  "appearance_order xs = fold (\<lambda>x ks. if x \<in> set ks then ks else ks @ [x]) xs []"

definition group_of :: "string \<Rightarrow> InnerTxnFieldSetter list \<Rightarrow> InnerTxnFieldSetter list" where
  "group_of n fs = filter (\<lambda>f. field_name f = n) (indexed fs)"

definition grouped :: "InnerTxnFieldSetter list \<Rightarrow> InnerTxnFieldSetter list" where
  "grouped fs = concat (map (\<lambda>n. group_of n fs) (appearance_order (map field_name (indexed fs))))"

fun contiguous :: "(string \<Rightarrow> nat) \<Rightarrow> InnerTxnFieldSetter list \<Rightarrow> bool" where
  "contiguous cnt [] = True"
| "contiguous cnt (f # fs) =
     (case index f of
        None \<Rightarrow> contiguous cnt fs
      | Some idx \<Rightarrow>
          py_int idx = cnt (field_name f)
          \<and> contiguous (cnt(field_name f := cnt (field_name f) + 1)) fs)"

definition field_code :: "scope_view \<Rightarrow> InnerTxnFieldSetter \<Rightarrow> string list" where
  "field_code sv f =
     (case process (field_expression f) sv of
        Inl e \<Rightarrow> []
      | Inr (t, teal) \<Rightarrow> teal @ [''itxn_field '' @ field_name f])"

definition resolves :: "scope_view \<Rightarrow> InnerTxnFieldSetter \<Rightarrow> bool" where
  "resolves sv f \<longleftrightarrow> (\<exists>r. process (field_expression f) sv = Inr r)"

definition append_to ::
  "InnerTxnFieldSetter \<Rightarrow> (string, InnerTxnFieldSetter list) dict
     \<Rightarrow> (string, InnerTxnFieldSetter list) dict" where
  "append_to f d =
     AList.update (field_name f)
       ((case map_of d (field_name f) of None \<Rightarrow> [] | Some a \<Rightarrow> a) @ [f]) d"

definition buffer ::
  "(string, InnerTxnFieldSetter list) dict \<Rightarrow> InnerTxnFieldSetter list
     \<Rightarrow> (string, InnerTxnFieldSetter list) dict" where
  "buffer d fs = fold append_to (indexed fs) d"

definition cnt_of :: "(string, InnerTxnFieldSetter list) dict \<Rightarrow> string \<Rightarrow> nat" where
  "cnt_of d n = (case map_of d n of None \<Rightarrow> 0 | Some a \<Rightarrow> length a)"

section \<open>Properties of the write operation\<close>

lemma source_map_inv_init: "source_map_inv (TealishCompiler_init src)"
  by (simp add: source_map_inv_def TealishCompiler_init_def)

lemma source_map_inv_write_line:
  assumes "source_map_inv c"
  shows "source_map_inv (write_line ln s c)"
proof -
  from assms have keys: "fst ` set (source_map c) = {1 .. length (output_lines c)}"
    and cnt: "current_output_line c = length (output_lines c) + 1"
    by (simp_all add: source_map_inv_def)
  have "{Suc (length (output_lines c))} \<union> {1 .. length (output_lines c)} = {1 .. Suc (length (output_lines c))}"
    by auto
  with keys cnt show ?thesis
    by (simp add: source_map_inv_def write_line_def dom_update)
qed

lemma source_map_inv_write:
  "source_map_inv c \<Longrightarrow> source_map_inv (TealishCompiler_write lines ln c)"
  unfolding TealishCompiler_write_def
  by (induction lines arbitrary: c) (simp_all add: source_map_inv_write_line)

lemma source_map_inv_writes:
  "source_map_inv c \<Longrightarrow> source_map_inv (fold (\<lambda>(lines, ln). TealishCompiler_write lines ln) ws c)"
  by (induction ws arbitrary: c) (auto simp: source_map_inv_write)

text \<open>
  C9. Every call of \<^verbatim>\<open>write\<close> keeps one source-map entry per emitted line: after any
  sequence of writes on a fresh compiler, the keys of the source map are exactly
  \<open>1 .. length output\<close> and the emission counter is \<open>length output + 1\<close>.
\<close>

theorem write_source_map_invariant:
  "fst ` set (source_map (fold (\<lambda>(lines, ln). TealishCompiler_write lines ln) ws (TealishCompiler_init src)))
     = {1 .. length (output_lines (fold (\<lambda>(lines, ln). TealishCompiler_write lines ln) ws (TealishCompiler_init src)))}
   \<and> current_output_line (fold (\<lambda>(lines, ln). TealishCompiler_write lines ln) ws (TealishCompiler_init src))
     = length (output_lines (fold (\<lambda>(lines, ln). TealishCompiler_write lines ln) ws (TealishCompiler_init src))) + 1"
  using source_map_inv_writes [OF source_map_inv_init, of ws src]
  by (simp add: source_map_inv_def)

lemma write_line_fields [simp]:
  "level (write_line ln s c) = level c"
  "line_no (write_line ln s c) = line_no c"
  "max_slot (write_line ln s c) = max_slot c"
  "conditional_count (write_line ln s c) = conditional_count c"
  "source_lines (write_line ln s c) = source_lines c"
  "error_messages (write_line ln s c) = error_messages c"
  by (simp_all add: write_line_def)

lemma write_line_scopes [simp]: "scopes (write_line ln s st) = scopes st"
  by (simp add: write_line_def)

lemma write_line_output:
  "output_lines (write_line ln s c) = output_lines c @ [prefix_of (level c) @ s]"
  by (simp add: write_line_def)

lemma Node_write_Nil [simp]: "Node_write [] m st = st"
  by (simp add: Node_write_def TealishCompiler_write_def)

lemma Node_write_Cons:
  "Node_write (l # ls) m st = Node_write ls m (write_line (node_line_no m) l st)"
  by (simp add: Node_write_def TealishCompiler_write_def)

lemma Node_write_append:
  "Node_write (xs @ ys) m st = Node_write ys m (Node_write xs m st)"
  by (simp add: Node_write_def TealishCompiler_write_def)

lemma wr_Node_write: "wr s m st = Node_write [s] m st"
  by (simp add: wr_def)

lemma Node_write_fields [simp]:
  "scopes (Node_write ls m st) = scopes st"
  "level (Node_write ls m st) = level st"
  "line_no (Node_write ls m st) = line_no st"
  "max_slot (Node_write ls m st) = max_slot st"
  "conditional_count (Node_write ls m st) = conditional_count st"
  by (induction ls arbitrary: st) (simp_all add: Node_write_Cons)

lemma wr_fields [simp]:
  "scopes (wr s m st) = scopes st"
  "level (wr s m st) = level st"
  "line_no (wr s m st) = line_no st"
  "max_slot (wr s m st) = max_slot st"
  "conditional_count (wr s m st) = conditional_count st"
  by (simp_all add: wr_def)

lemma Node_write_output:
  "output_lines (Node_write ls m st) = output_lines st @ map ((@) (prefix_of (level st))) ls"
  by (induction ls arbitrary: st) (simp_all add: Node_write_Cons write_line_output)

lemma process_in_Node_write [simp]: "process_in e m (Node_write ls m' st) = process_in e m st"
  by (simp add: process_in_def)

lemma process_in_wr [simp]: "process_in e m (wr s m' st) = process_in e m st"
  by (simp add: process_in_def)

section \<open>Switch\<close>

lemma switch_options_code:
  "switch_options m subject opts st =
     bind (option_code (scopes st) (node_scope m) subject opts) (\<lambda>ls. Inr (Node_write ls m st))"
proof (induction opts arbitrary: st)
  case Nil
  show ?case by simp
next
  case (Cons opt opts)
  obtain om e bn where opt: "opt = SwitchOption om e bn" by (cases opt)
  show ?case
  proof (cases "process e (get_scope (scopes st) (node_scope m))")
    case (Inl err)
    then show ?thesis by (simp add: opt process_in_def)
  next
    case (Inr r)
    obtain t teal where r: "r = (t, teal)" by (cases r)
    show ?thesis
    proof (cases "get_block (scopes st) (node_scope m) bn")
      case None
      with Inr r show ?thesis by (simp add: opt process_in_def Let_def)
    next
      case (Some lbl)
      show ?thesis
      proof (cases "option_code (scopes st) (node_scope m) subject opts")
        case (Inl err)
        with Inr r Some show ?thesis
          by (simp add: opt process_in_def Let_def Cons.IH)
      next
        case rest: (Inr ls)
        with Inr r Some show ?thesis
          by (simp add: opt process_in_def Let_def Cons.IH wr_Node_write
                Node_write_append [symmetric])
      qed
    qed
  qed
qed

text \<open>
  C4. The code of a \<^verbatim>\<open>switch\<close> is the echo of its line, then for each option in source
  order the subject's code again, the option's code, \<^verbatim>\<open>==\<close> and \<^verbatim>\<open>bnz\<close> to the block's
  label, then \<^verbatim>\<open>b\<close> to the block of the \<^verbatim>\<open>else\<close> clause or \<^verbatim>\<open>err\<close> without one: the visit
  writes exactly the lines of \<open>switch_code\<close> (and fails where \<open>switch_code\<close> fails),
  each after the indentation of the current level.
\<close>

theorem Switch_visit_code:
  "visit P (Switch m e options else_opt) st =
     bind (switch_code (scopes st) (node_scope m) (node_line m) e options else_opt)
       (\<lambda>lines. Inr (Node_write lines m st))
   \<and> output_lines (Node_write lines m st)
       = output_lines st @ map ((@) (prefix_of (level st))) lines"
proof
  show "output_lines (Node_write lines m st)
       = output_lines st @ map ((@) (prefix_of (level st))) lines"
    by (rule Node_write_output)
next
  show "visit P (Switch m e options else_opt) st =
     bind (switch_code (scopes st) (node_scope m) (node_line m) e options else_opt)
       (\<lambda>lines. Inr (Node_write lines m st))"
  proof (cases "process e (get_scope (scopes st) (node_scope m))")
    case (Inl err)
    then show ?thesis by (simp add: Switch_visit_def switch_code_def process_in_def Let_def)
  next
    case (Inr r)
    obtain t subject where r: "r = (t, subject)" by (cases r)
    show ?thesis
    proof (cases "option_code (scopes st) (node_scope m) subject options")
      case (Inl err)
      with Inr r show ?thesis
        by (simp add: Switch_visit_def switch_code_def process_in_def Let_def switch_options_code)
    next
      case body: (Inr ls)
      show ?thesis
      proof (cases else_opt)
        case None
        with Inr r body show ?thesis
          by (simp add: Switch_visit_def switch_code_def process_in_def Let_def
                switch_options_code wr_Node_write Node_write_append Node_write_Cons)
      next
        case (Some el)
        obtain em bn where el: "el = SwitchElse em bn" by (cases el)
        show ?thesis
        proof (cases "get_block (scopes st) (node_scope m) bn")
          case None
          with Inr r body Some el show ?thesis
            by (simp add: Switch_visit_def switch_code_def process_in_def Let_def
                  switch_options_code wr_Node_write)
        next
          case lbl: (Some l)
          with Inr r body Some el show ?thesis
            by (simp add: Switch_visit_def switch_code_def process_in_def Let_def
                  switch_options_code wr_Node_write Node_write_append Node_write_Cons)
        qed
      qed
    qed
  qed
qed

section \<open>Running the compiler on a concrete program\<close>

text \<open>
  The rules that evaluate a run: the recursion of the parser unfolds once per unit of
  its bound, and a sequence is evaluated from its first step on.
\<close>

lemma Statement_consume_numeral:
  "Statement_consume (numeral v) P PL cx st =
     (case Statement_open P PL cx st of
        Done r \<Rightarrow> Some r
      | Opened h stop inline cx1 st1 \<Rightarrow>
          pbind (children_loop (pred_numeral v) P PL stop inline cx1 [] st1) (\<lambda>(kids, st2).
            case if_index h of
              None \<Rightarrow> Some (Statement_close h kids [] None st2)
            | Some idx \<Rightarrow>
                pbind (if_loop (pred_numeral v) P PL cx idx [] None st2) (\<lambda>((elifs, else_opt), st3).
                  Some (Statement_close h kids elifs else_opt st3))))"
  by (simp only: numeral_eq_Suc Statement_consume.simps)

lemma children_loop_numeral:
  "children_loop (numeral v) P PL stop inline cx kids st =
     (case child_step stop st of
        ChildRaise e \<Rightarrow> Some (Inl e)
      | ChildStop st1 \<Rightarrow> Some (Inr (kids, st1))
      | ChildNext \<Rightarrow>
          pbind (Statement_consume (pred_numeral v) P PL cx st) (\<lambda>(node, st1).
            case add_child inline node of
              Some e \<Rightarrow> Some (Inl e)
            | None \<Rightarrow> children_loop (pred_numeral v) P PL stop inline cx (kids @ [node]) st1))"
  by (simp only: numeral_eq_Suc children_loop.simps)

lemma if_loop_numeral:
  "if_loop (numeral v) P PL cx idx elifs else_opt st =
     (case if_step P cx st of
        TurnRaise e \<Rightarrow> Some (Inl e)
      | TurnEnd st1 \<Rightarrow> Some (Inr ((elifs, else_opt), st1))
      | TurnElif m md cond st1 \<Rightarrow>
          pbind (children_loop (pred_numeral v) P PL StopClause (Some (''Elif'', node_line_no m)) cx [] st1)
            (\<lambda>(kids, st2).
               if_loop (pred_numeral v) P PL cx idx
                 (elifs @ [Elif m md cond (mint idx (''elif_'' @ str_nat (length elifs))) kids])
                 else_opt st2)
      | TurnElse m st1 \<Rightarrow>
          pbind (children_loop (pred_numeral v) P PL StopElseBody (Some (''Else'', node_line_no m)) cx [] st1)
            (\<lambda>(kids, st2).
               if_loop (pred_numeral v) P PL cx idx elifs (Some (Else m (mint idx ''else'') kids)) st2)
      | TurnNothing \<Rightarrow> if_loop (pred_numeral v) P PL cx idx elifs else_opt st)"
  by (simp only: numeral_eq_Suc if_loop.simps)

lemmas fuel_numeral = Statement_consume_numeral children_loop_numeral if_loop_numeral

lemmas cursor_defs = peek_def consume_line_def strip_def is_space_def startswith_def endswith_def

lemmas match_defs = match_TealVersion_def match_Comment_def match_Const_def match_Jump_def
  match_Exit_def match_FunctionCall_def match_Assert_def match_Declaration_def
  match_Assignment_def match_Block_def match_SwitchOption_def match_SwitchElse_def
  match_Switch_def match_conditional_def match_Elif_def match_Else_def match_Break_def
  match_ForStatement_def match_Func_def match_arg_def match_Return_def call_shape_def
  is_lower_def is_upper_def is_digit_def is_word_def is_arg_char_def

lemmas parse_defs = parse_def state_init_def Statement_open_def child_step_def if_step_def
  add_child_def Block_init_def Func_init_def IfStatement_init_def WhileStatement_init_def
  ForStatement_init_def Elif_init_def LineStatement_consume_def Switch_consume_def
  Teal_consume_def InnerTxn_consume_def InnerTxnFieldSetter_init_def new_scope_def
  Scope_init_def Func_close_def mint_def no_match_def class_pattern_def unexpected_child_def

lemmas sample_defs = parse_Integer_def parse_IntValue_def Integer_def py_int_def digit_val_def

lemma bind_weak_cong: "m = m' \<Longrightarrow> bind m f = bind m' f"
  by simp

lemma pbind_weak_cong: "m = m' \<Longrightarrow> pbind m f = pbind m' f"
  by simp

lemmas gen_defs = leaf_def wrap_def inc_level_def dec_level_def
  wr_def Node_write_def TealishCompiler_write_def write_line_def prefix_of_def process_in_def
  implicit_counter_head_def implicit_counter_tail_def explicit_counter_head_def
  explicit_counter_tail_def while_head_def while_tail_def if_head_def func_head_def
  compile_def





lemmas run_defs = compile_program_def cursor_defs match_defs parse_defs sample_defs gen_defs
  str_nat.simps digit_char_def

section \<open>The anonymous counter\<close>

text \<open>
  C1. The claim has the residual counter popped once after the end label. On the
  program \<^verbatim>\<open>for _ in 0:2:\<close>, \<^verbatim>\<open>end\<close> the compiler emits \<^verbatim>\<open>pop\<close> before the end label,
  directly after the unconditional branch to the start label, and nothing after the
  end label: the exit branch \<^verbatim>\<open>bnz l0_end\<close> arrives at the label with the counter still
  on the stack, and no emitted instruction removes it.
\<close>

theorem implicit_counter_pop_precedes_end_label:
  "\<exists>min_teal sm.
     compile_program 20 parse_Integer parse_IntValue id (''for _ in 0:2:'' @ [CHR 0x0A] @ ''end'') =
       Some (Returned
         [''// for _ in 0:2:'', ''  pushint 0'', ''  dup'', ''  l0_for:'',
          ''  pushint 2'', ''  =='', ''  bnz l0_end'', ''  pushint 1'', ''  +'',
          ''  dup'', ''  b l0_for'', ''  pop'', ''  l0_end: // end'', []]
         min_teal sm)"
  by (simp add: fuel_numeral run_defs Let_def cong: bind_weak_cong pbind_weak_cong)

section \<open>Slot allocation\<close>


lemma mark_used_total:
  "\<forall>e \<in> set d. fst (snd e) < length used \<Longrightarrow> \<exists>u. mark_used d used = Inr u"
  by (induction d used rule: mark_used.induct) auto







section \<open>Visible variables\<close>








lemma tbl_map_Nil [simp]: "tbl_map tbl S [] = Map.empty"
  by (simp add: tbl_map_def)










section \<open>Declarations\<close>



lemma declare_var_redefinition:
  "get_var (scopes st) i nm = Some v \<Longrightarrow>
     declare_var i nm t st = Inl (Exception (''Redefinition of variable '' @ [CHR 0x22] @ nm @ [CHR 0x22]))"
  by (simp add: declare_var_def)


lemma replicate_numeral: "replicate (numeral k) x = x # replicate (pred_numeral k) x"
  by (simp add: numeral_eq_Suc)

lemmas scope_eval = replicate_numeral get_var_def get_slots_def get_blocks_def get_block_def merged_def
  get_scopes.simps dict_update_def Scope_init_def find_slot_def declare_var_def
  subroutine_scope_def state_init_def


section \<open>Redeclaration\<close>

text \<open>
  C8, as stated, fails: a constant, a block and a subroutine declared twice under one
  name in one scope all compile.
\<close>

theorem redeclared_names_accepted:
  "(\<exists>teal min_teal sm.
      compile_program 20 parse_Integer parse_IntValue id
        (''const int A = 1'' @ [CHR 0x0A] @ ''const int A = 2'') = Some (Returned teal min_teal sm))
   \<and> (\<exists>teal min_teal sm.
      compile_program 20 parse_Integer parse_IntValue id
        (''block a:'' @ [CHR 0x0A] @ ''end'' @ [CHR 0x0A] @ ''block a:'' @ [CHR 0x0A] @ ''end'')
        = Some (Returned teal min_teal sm))
   \<and> (\<exists>teal min_teal sm.
      compile_program 20 parse_Integer parse_IntValue id
        (''func f():'' @ [CHR 0x0A] @ ''return'' @ [CHR 0x0A] @ ''end'' @ [CHR 0x0A]
          @ ''func f():'' @ [CHR 0x0A] @ ''return'' @ [CHR 0x0A] @ ''end'')
        = Some (Returned teal min_teal sm))"
proof (intro conjI)
  show "\<exists>teal min_teal sm.
      compile_program 20 parse_Integer parse_IntValue id
        (''const int A = 1'' @ [CHR 0x0A] @ ''const int A = 2'') = Some (Returned teal min_teal sm)"
    by (simp add: fuel_numeral run_defs Const_process_def Let_def cong: bind_weak_cong pbind_weak_cong)
next
  show "\<exists>teal min_teal sm.
      compile_program 20 parse_Integer parse_IntValue id
        (''block a:'' @ [CHR 0x0A] @ ''end'' @ [CHR 0x0A] @ ''block a:'' @ [CHR 0x0A] @ ''end'')
        = Some (Returned teal min_teal sm)"
    by (simp add: fuel_numeral run_defs Block_process_def Let_def cong: bind_weak_cong pbind_weak_cong)
next
  show "\<exists>teal min_teal sm.
      compile_program 20 parse_Integer parse_IntValue id
        (''func f():'' @ [CHR 0x0A] @ ''return'' @ [CHR 0x0A] @ ''end'' @ [CHR 0x0A]
          @ ''func f():'' @ [CHR 0x0A] @ ''return'' @ [CHR 0x0A] @ ''end'')
        = Some (Returned teal min_teal sm)"
    by (simp add: fuel_numeral run_defs Return_process_def Let_def cong: bind_weak_cong pbind_weak_cong)
qed

text \<open>
  C8, amended. Declaring a variable fails whenever the name already resolves in the
  active scope chain. Registering a constant, a named block or a subroutine never
  fails on account of the name: the entry of the scope's table for the name is the new
  one, whether or not the name was bound.
\<close>

theorem redeclaration_rules:
  "(get_var (scopes st) i nm = Some v \<longrightarrow>
      declare_var i nm t st
        = Inl (Exception (''Redefinition of variable '' @ [CHR 0x22] @ nm @ [CHR 0x22])))
   \<and> (\<exists>st'. Const_process m ty nm val st = Inr st' \<and>
        (node_scope m < length (scopes st) \<longrightarrow>
           map_of (scope_consts (scopes st' ! node_scope m)) nm = Some (ty, val)))
   \<and> (match_Block line = Some nm \<longrightarrow>
        (\<exists>mt label st'. Block_init cx st line = Inr ((mt, nm, label), st') \<and>
           (cx_scope cx < length (scopes st) \<longrightarrow>
              map_of (blocks (scopes st' ! cx_scope cx)) nm = Some label)))
   \<and> (match_Func line = Some (nm, args) \<longrightarrow>
        (\<exists>mt a label st'. Func_init cx st line = Inr ((mt, nm, a, label), st') \<and>
           (cx_scope cx < length (scopes st) \<longrightarrow>
              map_of (scope_functions (scopes st' ! cx_scope cx)) nm = Some label)))"
proof (intro conjI impI)
  assume "get_var (scopes st) i nm = Some v"
  then show "declare_var i nm t st
        = Inl (Exception (''Redefinition of variable '' @ [CHR 0x22] @ nm @ [CHR 0x22]))"
    by (rule declare_var_redefinition)
next
  show "\<exists>st'. Const_process m ty nm val st = Inr st' \<and>
        (node_scope m < length (scopes st) \<longrightarrow>
           map_of (scope_consts (scopes st' ! node_scope m)) nm = Some (ty, val))"
    by (simp add: Const_process_def update_conv')
next
  assume "match_Block line = Some nm"
  then show "\<exists>mt label st'. Block_init cx st line = Inr ((mt, nm, label), st') \<and>
           (cx_scope cx < length (scopes st) \<longrightarrow>
              map_of (blocks (scopes st' ! cx_scope cx)) nm = Some label)"
    by (simp add: Block_init_def new_scope_def Let_def nth_append update_conv')
next
  assume "match_Func line = Some (nm, args)"
  then show "\<exists>mt a label st'. Func_init cx st line = Inr ((mt, nm, a, label), st') \<and>
           (cx_scope cx < length (scopes st) \<longrightarrow>
              map_of (scope_functions (scopes st' ! cx_scope cx)) nm = Some label)"
    by (simp add: Func_init_def new_scope_def Let_def nth_append update_conv')
qed

theorem redeclaration_rules_witness:
  "declare_var 0 ''x'' T_int
      ((state_init [])\<lparr> scopes := [(Scope_init [] None None)\<lparr> slots := [(''x'', (0, T_int))] \<rparr>] \<rparr>)
     = Inl (Exception (''Redefinition of variable '' @ [CHR 0x22] @ ''x'' @ [CHR 0x22]))
   \<and> (\<exists>mt label st'.
        Block_init \<lparr> cx_scope = 0, cx_loop = None, cx_func = False, cx_group = False \<rparr>
          ((state_init [])\<lparr> scopes := [(Scope_init [] None None)\<lparr> blocks := [(''a'', ''a'')] \<rparr>] \<rparr>)
          ''block a:'' = Inr ((mt, ''a'', label), st')
        \<and> map_of (blocks (scopes st' ! 0)) ''a'' = Some label)"
proof
  let ?st = "(state_init [])\<lparr> scopes := [(Scope_init [] None None)\<lparr> slots := [(''x'', (0, T_int))] \<rparr>] \<rparr>"
  have "get_var (scopes ?st) 0 ''x'' = Some (0, T_int)"
    by (simp add: scope_eval)
  then show "declare_var 0 ''x'' T_int ?st
     = Inl (Exception (''Redefinition of variable '' @ [CHR 0x22] @ ''x'' @ [CHR 0x22]))"
    by (rule mp [OF redeclaration_rules [where st = ?st and i = 0 and nm = "''x''" and v = "(0, T_int)"
          and t = T_int, THEN conjunct1], rotated])
next
  let ?cx = "\<lparr> cx_scope = 0, cx_loop = None, cx_func = False, cx_group = False \<rparr>"
  let ?st = "(state_init [])\<lparr> scopes := [(Scope_init [] None None)\<lparr> blocks := [(''a'', ''a'')] \<rparr>] \<rparr>"
  have m: "match_Block ''block a:'' = Some ''a''"
    by (simp add: match_defs startswith_def)
  have "\<exists>mt label st'. Block_init ?cx ?st ''block a:'' = Inr ((mt, ''a'', label), st') \<and>
           (cx_scope ?cx < length (scopes ?st) \<longrightarrow>
              map_of (blocks (scopes st' ! cx_scope ?cx)) ''a'' = Some label)"
    by (rule mp [OF redeclaration_rules [where line = "''block a:''" and nm = "''a''" and cx = ?cx
          and st = ?st,
          THEN conjunct2, THEN conjunct2, THEN conjunct1] m])
  then show "\<exists>mt label st'. Block_init ?cx ?st ''block a:'' = Inr ((mt, ''a'', label), st')
        \<and> map_of (blocks (scopes st' ! 0)) ''a'' = Some label"
    by simp
qed

section \<open>Inner transactions\<close>

lemma emit_field_code:
  "resolves (get_scope (scopes st) (node_scope m)) f \<Longrightarrow>
     emit_field m f st = Inr (Node_write (field_code (get_scope (scopes st) (node_scope m)) f) m st)"
  by (auto simp: resolves_def emit_field_def field_code_def process_in_def wr_Node_write
      Node_write_append)

lemma emit_field_fails:
  "\<not> resolves (get_scope (scopes st) (node_scope m)) f \<Longrightarrow> \<exists>e. emit_field m f st = Inl e"
  by (cases "process (field_expression f) (get_scope (scopes st) (node_scope m))")
     (auto simp: resolves_def emit_field_def process_in_def)

lemma emit_fields_code:
  "\<forall>f \<in> set fs. resolves (get_scope (scopes st) (node_scope m)) f \<Longrightarrow>
     emit_fields m fs st
       = Inr (Node_write (concat (map (field_code (get_scope (scopes st) (node_scope m))) fs)) m st)"
proof (induction fs arbitrary: st)
  case Nil
  show ?case by simp
next
  case (Cons f fs)
  let ?sv = "get_scope (scopes st) (node_scope m)"
  let ?st1 = "Node_write (field_code ?sv f) m st"
  from Cons.prems have f: "emit_field m f st = Inr ?st1" by (simp add: emit_field_code)
  have "\<forall>g \<in> set fs. resolves (get_scope (scopes ?st1) (node_scope m)) g"
    using Cons.prems by simp
  from Cons.IH [OF this] f show ?case by (simp add: Node_write_append)
qed

lemma cnt_of_append_to:
  "cnt_of (append_to f d) = (cnt_of d)(field_name f := cnt_of d (field_name f) + 1)"
  by (rule ext) (simp add: cnt_of_def append_to_def update_conv' split: option.splits)

lemma scan_step:
  "(case map_of d n of None \<Rightarrow> AList.update n [] d | Some _ \<Rightarrow> d) = d'
     \<Longrightarrow> (case map_of d' n of None \<Rightarrow> [] | Some l \<Rightarrow> l) = (case map_of d n of None \<Rightarrow> [] | Some a \<Rightarrow> a)
       \<and> AList.update n v d' = AList.update n v d"
  by (auto simp: update_conv' split: option.splits)

lemma scan_fields_ok:
  "contiguous (cnt_of d) fs \<Longrightarrow>
   \<forall>f \<in> set (scalars fs). resolves (get_scope (scopes st) (node_scope m)) f \<Longrightarrow>
     scan_fields m fs d st
       = Inr (buffer d fs,
              Node_write (concat (map (field_code (get_scope (scopes st) (node_scope m))) (scalars fs))) m st)"
proof (induction fs arbitrary: d st)
  case Nil
  show ?case by (simp add: buffer_def indexed_def scalars_def)
next
  case (Cons f fs)
  show ?case
  proof (cases "index f")
    case None
    let ?sv = "get_scope (scopes st) (node_scope m)"
    let ?st1 = "Node_write (field_code ?sv f) m st"
    from None Cons.prems have r: "resolves ?sv f" by (simp add: scalars_def)
    then have e: "emit_field m f st = Inr ?st1" by (rule emit_field_code)
    from None Cons.prems have c: "contiguous (cnt_of d) fs" by simp
    have "\<forall>g \<in> set (scalars fs). resolves (get_scope (scopes ?st1) (node_scope m)) g"
      using Cons.prems None by (simp add: scalars_def)
    from Cons.IH [OF c this] e None show ?thesis
      by (simp add: buffer_def indexed_def scalars_def Node_write_append)
  next
    case (Some idx)
    from Some Cons.prems have eq: "py_int idx = cnt_of d (field_name f)"
      and c: "contiguous (cnt_of (append_to f d)) fs"
      by (simp_all add: cnt_of_append_to)
    have s: "\<forall>g \<in> set (scalars fs). resolves (get_scope (scopes st) (node_scope m)) g"
      using Cons.prems Some by (simp add: scalars_def)
    from Cons.IH [OF c s] have ih: "scan_fields m fs (append_to f d) st
       = Inr (buffer (append_to f d) fs,
              Node_write (concat (map (field_code (get_scope (scopes st) (node_scope m))) (scalars fs))) m st)" .
    have b: "buffer d (f # fs) = buffer (append_to f d) fs"
      using Some by (simp add: buffer_def indexed_def)
    have sc: "scalars (f # fs) = scalars fs" using Some by (simp add: scalars_def)
    show ?thesis
      unfolding b sc
      using Some eq ih
      by (auto simp: Let_def cnt_of_def append_to_def update_conv' split: option.splits)
  qed
qed

lemma scan_fields_gap:
  "\<not> contiguous (cnt_of d) fs \<Longrightarrow> \<exists>e. scan_fields m fs d st = Inl e"
proof (induction fs arbitrary: d st)
  case Nil
  then show ?case by simp
next
  case (Cons f fs)
  show ?case
  proof (cases "index f")
    case None
    with Cons.prems have c: "\<not> contiguous (cnt_of d) fs" by simp
    show ?thesis
    proof (cases "emit_field m f st")
      case (Inl e)
      with None show ?thesis by simp
    next
      case (Inr st1)
      with None Cons.IH [OF c, of st1] show ?thesis by simp
    qed
  next
    case (Some idx)
    show ?thesis
    proof (cases "py_int idx = cnt_of d (field_name f)")
      case True
      with Some Cons.prems have c: "\<not> contiguous (cnt_of (append_to f d)) fs"
        by (simp add: cnt_of_append_to)
      from Cons.IH [OF c, of st] obtain e where "scan_fields m fs (append_to f d) st = Inl e" ..
      with Some True show ?thesis
        by (auto simp: Let_def cnt_of_def append_to_def update_conv' split: option.splits)
    next
      case False
      with Some show ?thesis
        by (auto simp: Let_def cnt_of_def update_conv' split: option.splits)
    qed
  qed
qed


lemma keys_fold_append_to:
  "map fst (fold append_to xs d)
     = fold (\<lambda>x ks. if x \<in> set ks then ks else ks @ [x]) (map field_name xs) (map fst d)"
  by (induction xs arbitrary: d) (simp_all add: append_to_def update_keys)

lemma distinct_fold_append_to:
  "distinct (map fst d) \<Longrightarrow> distinct (map fst (fold append_to xs d))"
  by (induction xs arbitrary: d) (simp_all add: append_to_def distinct_update)

lemma map_of_append_to:
  "map_of (append_to x d) n
     = (if n = field_name x
        then Some ((case map_of d n of None \<Rightarrow> [] | Some a \<Rightarrow> a) @ [x])
        else map_of d n)"
  by (simp add: append_to_def update_conv')

lemma map_of_fold_append_to:
  "map_of (fold append_to xs d) n
     = (case map_of d n of
          None \<Rightarrow> if n \<in> field_name ` set xs then Some (filter (\<lambda>f. field_name f = n) xs) else None
        | Some a \<Rightarrow> Some (a @ filter (\<lambda>f. field_name f = n) xs))"
proof (induction xs arbitrary: d)
  case Nil
  show ?case by (simp split: option.splits)
next
  case (Cons x xs)
  show ?case
  proof (cases "field_name x = n")
    case True
    then show ?thesis
      by (cases "map_of d n") (simp_all add: Cons.IH [of "append_to x d"] map_of_append_to)
  next
    case False
    then have "n \<noteq> field_name x" by auto
    with False show ?thesis
      by (cases "map_of d n") (simp_all add: Cons.IH [of "append_to x d"] map_of_append_to)
  qed
qed

lemma cnt_of_Nil: "cnt_of [] = (\<lambda>n. 0)"
  by (rule ext) (simp add: cnt_of_def)

lemma values_by_keys:
  "distinct (map fst d) \<Longrightarrow> map snd d = map (\<lambda>k. the (map_of d k)) (map fst d)"
proof (induction d)
  case Nil
  show ?case by simp
next
  case (Cons p d)
  obtain k v where p: "p = (k, v)" by (cases p)
  from Cons.prems p have k: "k \<notin> set (map fst d)" and dist: "distinct (map fst d)"
    by simp_all
  have "map (\<lambda>k'. the (map_of (p # d) k')) (map fst d)
      = map (\<lambda>k'. the (map_of d k')) (map fst d)"
  proof (rule map_cong [OF refl])
    fix k' assume "k' \<in> set (map fst d)"
    with k have "k' \<noteq> k" by auto
    then show "the (map_of (p # d) k') = the (map_of d k')" by (simp add: p)
  qed
  with Cons.IH [OF dist] show ?case by (simp add: p)
qed

lemma set_fold_extend:
  "set (fold (\<lambda>x ks. if x \<in> set ks then ks else ks @ [x]) xs ks0) = set xs \<union> set ks0"
  by (induction xs arbitrary: ks0) auto

lemma buffer_grouped: "concat (map snd (buffer [] fs)) = grouped fs"
proof -
  let ?d = "buffer [] fs"
  have dist: "distinct (map fst ?d)"
    by (simp add: buffer_def distinct_fold_append_to)
  have keys: "map fst ?d = appearance_order (map field_name (indexed fs))"
    by (simp add: buffer_def keys_fold_append_to appearance_order_def)
  have val: "the (map_of ?d n) = group_of n fs" if "n \<in> set (map fst ?d)" for n
  proof -
    from that have "n \<in> field_name ` set (indexed fs)"
      by (simp add: keys appearance_order_def set_fold_extend)
    then show ?thesis
      by (simp add: buffer_def map_of_fold_append_to group_of_def)
  qed
  have "map snd ?d = map (\<lambda>k. the (map_of ?d k)) (map fst ?d)"
    using dist by (rule values_by_keys)
  also have "\<dots> = map (\<lambda>n. group_of n fs) (map fst ?d)"
    using val by (simp cong: map_cong)
  finally show ?thesis by (simp add: grouped_def keys)
qed

lemma set_grouped: "set (grouped fs) = set (indexed fs)"
proof -
  have "set (grouped fs) = (\<Union>n \<in> field_name ` set (indexed fs). set (group_of n fs))"
    by (simp add: grouped_def appearance_order_def set_fold_extend)
  also have "\<dots> = set (indexed fs)"
    by (auto simp: group_of_def)
  finally show ?thesis .
qed

text \<open>Under contiguity the indices of a group count up from the group's size so far.\<close>

lemma contiguous_group:
  "contiguous cnt fs \<Longrightarrow>
     map (\<lambda>f. py_int (the (index f))) (group_of n fs) = [cnt n ..< cnt n + length (group_of n fs)]"
proof (induction fs arbitrary: cnt)
  case Nil
  show ?case by (simp add: group_of_def indexed_def)
next
  case (Cons f fs)
  show ?case
  proof (cases "index f")
    case None
    with Cons.prems have "contiguous cnt fs" by simp
    from Cons.IH [OF this] None show ?thesis by (simp add: group_of_def indexed_def)
  next
    case (Some idx)
    with Cons.prems have eq: "py_int idx = cnt (field_name f)"
      and c: "contiguous (cnt(field_name f := cnt (field_name f) + 1)) fs" by simp_all
    note ih = Cons.IH [OF c]
    show ?thesis
    proof (cases "field_name f = n")
      case True
      have g: "group_of n (f # fs) = f # group_of n fs"
        using Some True by (simp add: group_of_def indexed_def)
      from ih True have "map (\<lambda>f. py_int (the (index f))) (group_of n fs)
          = [cnt n + 1 ..< cnt n + 1 + length (group_of n fs)]" by simp
      then have "map (\<lambda>f. py_int (the (index f))) (f # group_of n fs)
          = cnt n # [Suc (cnt n) ..< Suc (cnt n + length (group_of n fs))]"
        using Some eq True by simp
      also have "\<dots> = [cnt n ..< Suc (cnt n + length (group_of n fs))]"
        by (rule upt_conv_Cons [symmetric]) simp
      finally show ?thesis unfolding g by simp
    next
      case False
      have g: "group_of n (f # fs) = group_of n fs"
        using Some False by (simp add: group_of_def indexed_def)
      from ih False show ?thesis unfolding g by simp
    qed
  qed
qed

text \<open>
  C3. Visiting an inner transaction fails when the indices of some field name are not
  0, 1, 2, ... in source order (a gap, or index 1 before index 0). When they are, and
  every field's expression compiles, the node writes its echo line, then the code of
  the fields without an index in source order, then the code of the indexed fields
  grouped by field name, and the indices within each group ascend from 0.
\<close>

theorem InnerTxn_visit_order:
  "(\<not> contiguous (\<lambda>n. 0) fs \<longrightarrow> (\<exists>e. visit P (InnerTxn m fs) st = Inl e))
   \<and> (contiguous (\<lambda>n. 0) fs \<and> (\<forall>f \<in> set fs. resolves (get_scope (scopes st) (node_scope m)) f) \<longrightarrow>
        visit P (InnerTxn m fs) st
          = Inr (Node_write
                  ((''// '' @ node_line m)
                    # concat (map (field_code (get_scope (scopes st) (node_scope m))) (scalars fs))
                    @ concat (map (field_code (get_scope (scopes st) (node_scope m))) (grouped fs)))
                  m st)
        \<and> (\<forall>n. map (\<lambda>f. py_int (the (index f))) (group_of n fs) = [0 ..< length (group_of n fs)]))"
proof (intro conjI impI)
  assume "\<not> contiguous (\<lambda>n. 0) fs"
  then have "\<not> contiguous (cnt_of []) fs" by (simp add: cnt_of_Nil)
  from scan_fields_gap [OF this, of m "wr (''// '' @ node_line m) m st"]
  obtain e where "scan_fields m fs [] (wr (''// '' @ node_line m) m st) = Inl e" ..
  then have "InnerTxn_visit m fs st = Inl e"
    unfolding InnerTxn_visit_def by simp
  then show "\<exists>e. visit P (InnerTxn m fs) st = Inl e" by simp
next
  assume h: "contiguous (\<lambda>n. 0) fs \<and> (\<forall>f \<in> set fs. resolves (get_scope (scopes st) (node_scope m)) f)"
  let ?sv = "get_scope (scopes st) (node_scope m)"
  let ?st0 = "wr (''// '' @ node_line m) m st"
  from h have c: "contiguous (cnt_of []) fs" by (simp add: cnt_of_Nil)
  from h have s: "\<forall>f \<in> set (scalars fs). resolves (get_scope (scopes ?st0) (node_scope m)) f"
    by (simp add: scalars_def)
  let ?st1 = "Node_write (concat (map (field_code ?sv) (scalars fs))) m ?st0"
  from scan_fields_ok [OF c s]
  have scan: "scan_fields m fs [] ?st0 = Inr (buffer [] fs, ?st1)" by simp
  from h have "\<forall>f \<in> set (grouped fs). resolves (get_scope (scopes ?st1) (node_scope m)) f"
    by (simp add: set_grouped indexed_def)
  from emit_fields_code [OF this]
  have emit: "emit_fields m (grouped fs) ?st1
      = Inr (Node_write (concat (map (field_code ?sv) (grouped fs))) m ?st1)" by simp
  have "InnerTxn_visit m fs st
      = Inr (Node_write (concat (map (field_code ?sv) (grouped fs))) m ?st1)"
    unfolding InnerTxn_visit_def scan using emit by (simp add: buffer_grouped)
  also have "Node_write (concat (map (field_code ?sv) (grouped fs))) m ?st1
      = Node_write
          ([''// '' @ node_line m]
            @ concat (map (field_code ?sv) (scalars fs))
            @ concat (map (field_code ?sv) (grouped fs)))
          m st"
    unfolding Node_write_append wr_Node_write ..
  finally show "visit P (InnerTxn m fs) st
          = Inr (Node_write
                  ((''// '' @ node_line m)
                    # concat (map (field_code ?sv) (scalars fs))
                    @ concat (map (field_code ?sv) (grouped fs)))
                  m st)"
    by simp
  from h have "contiguous (\<lambda>n. 0) fs" by simp
  from contiguous_group [OF this]
  show "\<forall>n. map (\<lambda>f. py_int (the (index f))) (group_of n fs) = [0 ..< length (group_of n fs)]"
    by simp
qed


theorem InnerTxn_visit_order_witness:
  "visit parse_Integer
      (InnerTxn (Meta ''inner_txn:'' 1 0)
         [InnerTxnFieldSetter (Meta ''TypeEnum: 6'' 2 0) ''TypeEnum'' None (Integer 6),
          InnerTxnFieldSetter (Meta ''Accounts[0]: 1'' 3 0) ''Accounts'' (Some ''0'') (Integer 1),
          InnerTxnFieldSetter (Meta ''Applications[0]: 7'' 4 0) ''Applications'' (Some ''0'') (Integer 7),
          InnerTxnFieldSetter (Meta ''Fee: 0'' 5 0) ''Fee'' None (Integer 0),
          InnerTxnFieldSetter (Meta ''Accounts[1]: 2'' 6 0) ''Accounts'' (Some ''1'') (Integer 2)])
      ((state_init [])\<lparr> scopes := [Scope_init [] None None] \<rparr>)
     = Inr (Node_write
             [''// inner_txn:'',
              ''pushint 6'', ''itxn_field TypeEnum'',
              ''pushint 0'', ''itxn_field Fee'',
              ''pushint 1'', ''itxn_field Accounts'',
              ''pushint 2'', ''itxn_field Accounts'',
              ''pushint 7'', ''itxn_field Applications'']
             (Meta ''inner_txn:'' 1 0)
             ((state_init [])\<lparr> scopes := [Scope_init [] None None] \<rparr>))
   \<and> (\<exists>e. visit parse_Integer
          (InnerTxn (Meta ''inner_txn:'' 1 0)
             [InnerTxnFieldSetter (Meta ''Accounts[1]: 2'' 2 0) ''Accounts'' (Some ''1'') (Integer 2),
              InnerTxnFieldSetter (Meta ''Accounts[0]: 1'' 3 0) ''Accounts'' (Some ''0'') (Integer 1)])
          ((state_init [])\<lparr> scopes := [Scope_init [] None None] \<rparr>) = Inl e)"
proof (rule conjI)
  let ?m = "Meta ''inner_txn:'' 1 0"
  let ?st = "(state_init [])\<lparr> scopes := [Scope_init [] None None] \<rparr>"
  let ?fs = "[InnerTxnFieldSetter (Meta ''TypeEnum: 6'' 2 0) ''TypeEnum'' None (Integer 6),
          InnerTxnFieldSetter (Meta ''Accounts[0]: 1'' 3 0) ''Accounts'' (Some ''0'') (Integer 1),
          InnerTxnFieldSetter (Meta ''Applications[0]: 7'' 4 0) ''Applications'' (Some ''0'') (Integer 7),
          InnerTxnFieldSetter (Meta ''Fee: 0'' 5 0) ''Fee'' None (Integer 0),
          InnerTxnFieldSetter (Meta ''Accounts[1]: 2'' 6 0) ''Accounts'' (Some ''1'') (Integer 2)]"
  have h: "contiguous (\<lambda>n. 0) ?fs
      \<and> (\<forall>f \<in> set ?fs. resolves (get_scope (scopes ?st) (node_scope ?m)) f)"
    by (simp add: resolves_def Integer_def py_int_def digit_val_def)
  from mp [OF InnerTxn_visit_order [of ?fs parse_Integer ?m ?st, THEN conjunct2] h]
  show "visit parse_Integer (InnerTxn ?m ?fs) ?st
     = Inr (Node_write
             [''// inner_txn:'',
              ''pushint 6'', ''itxn_field TypeEnum'',
              ''pushint 0'', ''itxn_field Fee'',
              ''pushint 1'', ''itxn_field Accounts'',
              ''pushint 2'', ''itxn_field Accounts'',
              ''pushint 7'', ''itxn_field Applications'']
             ?m ?st)"
    by (simp add: scalars_def grouped_def group_of_def indexed_def appearance_order_def
        field_code_def Integer_def str_nat.simps digit_char_def)
next
  let ?m = "Meta ''inner_txn:'' 1 0"
  let ?st = "(state_init [])\<lparr> scopes := [Scope_init [] None None] \<rparr>"
  let ?fs = "[InnerTxnFieldSetter (Meta ''Accounts[1]: 2'' 2 0) ''Accounts'' (Some ''1'') (Integer 2),
              InnerTxnFieldSetter (Meta ''Accounts[0]: 1'' 3 0) ''Accounts'' (Some ''0'') (Integer 1)]"
  have h: "\<not> contiguous (\<lambda>n. 0) ?fs"
    by (simp add: py_int_def digit_val_def)
  from mp [OF InnerTxn_visit_order [of ?fs parse_Integer ?m ?st, THEN conjunct1] h]
  show "\<exists>e. visit parse_Integer (InnerTxn ?m ?fs) ?st = Inl e" .
qed

end
